theory Spec2Isabelle
  imports Complex_Main "HOL-Library.Log_Nat" "HOL-Library.Word"
begin

text \<open>
  A model of the incentive analysis engine of the commercial real-estate incentives tool:
  the TTL/LRU cache, the analysis orchestrator with its recommendations and financial
  projections, the SBA 504 and New Markets Tax Credit evaluators with their double-precision
  arithmetic, and address validation.
  The first half of the theory holds the definitions, each translated from the JavaScript
  function named beside it; the second half holds the properties.
\<close>

section \<open>The TTL/LRU cache (src/services/utils/cache.js)\<close>

text \<open>
  \<^verbatim>\<open>CacheManager\<close> keeps its entries in a JavaScript \<^verbatim>\<open>Map\<close>. A \<^verbatim>\<open>Map\<close> iterates in
  insertion order, \<^verbatim>\<open>Map.set\<close> on a key that is already present replaces the value and
  keeps the key's position, \<^verbatim>\<open>Map.set\<close> on a new key appends it, and \<^verbatim>\<open>Map.delete\<close>
  removes the key and tells whether it was there. The model is an association list in
  iteration order: the head is the entry \<^verbatim>\<open>this.cache.keys().next().value\<close> names.
\<close>

type_synonym ('k, 'v) js_map = "('k \<times> 'v) list"

fun map_get :: "('k, 'v) js_map \<Rightarrow> 'k \<Rightarrow> 'v option" where
  "map_get [] k = None"
| "map_get ((k', v) # m) k = (if k' = k then Some v else map_get m k)"

fun map_set :: "('k, 'v) js_map \<Rightarrow> 'k \<Rightarrow> 'v \<Rightarrow> ('k, 'v) js_map" where
  "map_set [] k v = [(k, v)]"
| "map_set ((k', v') # m) k v = (if k' = k then (k, v) # m else (k', v') # map_set m k v)"

fun map_delete :: "('k, 'v) js_map \<Rightarrow> 'k \<Rightarrow> ('k, 'v) js_map" where
  "map_delete [] k = []"
| "map_delete ((k', v') # m) k = (if k' = k then map_delete m k else (k', v') # map_delete m k)"


definition map_keys :: "('k, 'v) js_map \<Rightarrow> 'k list" where
  "map_keys m = map fst m"

text \<open>
  Times are \<^verbatim>\<open>Date.now()\<close> values, whole milliseconds. A time-to-live is a whole number
  of milliseconds or \<^verbatim>\<open>Infinity\<close> (\<^verbatim>\<open>CACHE_TTL.PERMANENT\<close>), and so is an expiry.
\<close>

datatype js_ms = Ms int | Infinity

fun ms_add :: "int \<Rightarrow> js_ms \<Rightarrow> js_ms" where
  "ms_add now (Ms t) = Ms (now + t)"
| "ms_add now Infinity = Infinity"

fun ms_gt :: "int \<Rightarrow> js_ms \<Rightarrow> bool" where
  "ms_gt now (Ms e) = (now > e)"
| "ms_gt now Infinity = False"


text \<open>
  A stored value is any JavaScript value; \<open>None\<close> stands for \<^verbatim>\<open>null\<close>, which is also what
  \<^verbatim>\<open>get\<close> answers on a miss.
\<close>

record 'v cache_item =
  item_value :: "'v option"
  expiresAt :: js_ms
  createdAt :: int

record ('k, 'v) CacheManager =
  cache :: "('k, 'v cache_item) js_map"
  defaultTTL :: int
  maxSize :: nat

definition new_CacheManager :: "('k, 'v) CacheManager" where
  "new_CacheManager = \<lparr>cache = [], defaultTTL = 5 * 60 * 1000, maxSize = 1000\<rparr>"

text \<open>
  \<^verbatim>\<open>set(key, value, ttl = this.defaultTTL)\<close>: the third argument is \<open>None\<close> when the caller
  leaves it out. \<open>now\<close> is what \<^verbatim>\<open>Date.now()\<close> returns during the call (both reads of
  the clock in \<^verbatim>\<open>set\<close> are taken at the same millisecond).
\<close>

definition evict_if_full :: "('k, 'v) CacheManager \<Rightarrow> ('k, 'v) CacheManager" where
  "evict_if_full c =
     (if length (cache c) \<ge> maxSize c
      then (case map_keys (cache c) of
              [] \<Rightarrow> c
            | firstKey # _ \<Rightarrow> c\<lparr>cache := map_delete (cache c) firstKey\<rparr>)
      else c)"

definition cache_set ::
  "('k, 'v) CacheManager \<Rightarrow> int \<Rightarrow> 'k \<Rightarrow> 'v option \<Rightarrow> js_ms option \<Rightarrow> ('k, 'v) CacheManager" where
  "cache_set c now key v ttl_arg =
     (let ttl = (case ttl_arg of None \<Rightarrow> Ms (defaultTTL c) | Some t \<Rightarrow> t);
          c1 = evict_if_full c;
          expires = ms_add now ttl
      in c1\<lparr>cache := map_set (cache c1) key
                \<lparr>item_value = v, expiresAt = expires, createdAt = now\<rparr>\<rparr>)"

text \<open>\<^verbatim>\<open>get(key)\<close> returns the value (or \<^verbatim>\<open>null\<close>) and the cache as the call leaves it.\<close>

definition cache_get ::
  "('k, 'v) CacheManager \<Rightarrow> int \<Rightarrow> 'k \<Rightarrow> 'v option \<times> ('k, 'v) CacheManager" where
  "cache_get c now key =
     (case map_get (cache c) key of
        None \<Rightarrow> (None, c)
      | Some item \<Rightarrow>
          if ms_gt now (expiresAt item)
          then (None, c\<lparr>cache := map_delete (cache c) key\<rparr>)
          else (item_value item,
                c\<lparr>cache := map_set (map_delete (cache c) key) key item\<rparr>))"




definition cache_size :: "('k, 'v) CacheManager \<Rightarrow> nat" where
  "cache_size c = length (cache c)"

text \<open>A run of \<^verbatim>\<open>set\<close> calls with the default time-to-live, all at the same instant.\<close>

fun set_all ::
  "('k, 'v) CacheManager \<Rightarrow> int \<Rightarrow> ('k \<times> 'v option) list \<Rightarrow> ('k, 'v) CacheManager" where
  "set_all c now [] = c"
| "set_all c now ((k, v) # kvs) = set_all (cache_set c now k v None) now kvs"


text \<open>The item \<^verbatim>\<open>set(key, v)\<close> stores at time \<open>now\<close> when the caller gives no time-to-live.\<close>

definition default_item :: "('k, 'v) CacheManager \<Rightarrow> int \<Rightarrow> 'v option \<Rightarrow> 'v cache_item" where
  "default_item c now v = \<lparr>item_value = v, expiresAt = Ms (now + defaultTTL c), createdAt = now\<rparr>"


section \<open>JavaScript values\<close>

text \<open>
  Text that comes from the user (an address) is a list of UTF-16 code units. Names that
  are part of the program text (property names, program keys, priorities, messages) are
  ASCII and are written as HOL strings.
\<close>

type_synonym code_unit = nat
type_synonym js_string = "code_unit list"

definition js_str :: "string \<Rightarrow> js_string" where
  "js_str s = map of_char s"

text \<open>
  The evaluators return heterogeneous JSON-like objects, and the orchestrator reads them
  with optional chaining and truthiness tests, so they are modelled as untyped values.
  The numbers in them are exact rationals: \<^verbatim>\<open>NaN\<close>, the infinities and the rounding of doubles
  are not represented in this type. The evaluators that compute with numbers use the
  doubles of the next section.
\<close>

datatype js =
    JUndefined
  | JNull
  | JBool bool
  | JNum rat
  | JStr js_string
  | JArr "js list"
  | JObj "(string \<times> js) list"

fun truthy :: "js \<Rightarrow> bool" where
  "truthy JUndefined = False"
| "truthy JNull = False"
| "truthy (JBool b) = b"
| "truthy (JNum n) = (n \<noteq> 0)"
| "truthy (JStr s) = (s \<noteq> [])"
| "truthy (JArr xs) = True"
| "truthy (JObj kvs) = True"

text \<open>\<^verbatim>\<open>a || b\<close>\<close>

definition js_or :: "js \<Rightarrow> js \<Rightarrow> js" where
  "js_or a b = (if truthy a then a else b)"

text \<open>
  \<^verbatim>\<open>v?.p\<close> for a property name \<open>p\<close> that no built-in prototype defines (the only names
  the orchestrator reads): \<^verbatim>\<open>undefined\<close> on \<^verbatim>\<open>null\<close>, \<^verbatim>\<open>undefined\<close> and primitives, the own
  property on an object.
\<close>

fun opt_get :: "js \<Rightarrow> string \<Rightarrow> js" where
  "opt_get (JObj kvs) p = (case map_of kvs p of Some v \<Rightarrow> v | None \<Rightarrow> JUndefined)"
| "opt_get v p = JUndefined"

section \<open>Double-precision arithmetic\<close>

text \<open>
  A JavaScript number is an IEEE 754 binary64 value, and each arithmetic operation returns
  the double nearest to its exact result, a tie going to the even significand. The SBA 504
  and the New Markets Tax Credit evaluators are modelled with this arithmetic. A finite
  double is written as the rational number it denotes; the two zeros are one value, since
  no operation used here tells them apart.
\<close>

datatype double = Finite rat | PosInf | NegInf | NaN

definition pow2 :: "int \<Rightarrow> rat" where
  "pow2 e = (if 0 \<le> e then 2 ^ nat e else 1 / 2 ^ nat (- e))"

text \<open>
  The binary exponent of a non-zero rational \<open>x\<close>, the integer \<open>e\<close> with
  \<open>pow2 e \<le> \<bar>x\<bar>\<close> and \<open>\<bar>x\<bar> < pow2 (e + 1)\<close>, from the bit length of the integer part of
  \<open>\<bar>x\<bar>\<close> or of its reciprocal. For \<open>x = 0\<close> it is 0.
\<close>

definition binary_exponent :: "rat \<Rightarrow> int" where
  "binary_exponent x =
     (if 1 \<le> \<bar>x\<bar> then bitlen \<lfloor>\<bar>x\<bar>\<rfloor> - 1 else - bitlen (\<lceil>1 / \<bar>x\<bar>\<rceil> - 1))"

text \<open>The nearest integer, a tie going to the even one.\<close>

definition round_half_even :: "rat \<Rightarrow> int" where
  "round_half_even r =
     (let f = \<lfloor>r\<rfloor>; d = r - of_int f
      in if d < 1 / 2 then f else if d > 1 / 2 then f + 1 else if even f then f else f + 1)"

text \<open>
  Rounding to the nearest double with the exponent unbounded above: 53 significant bits,
  and the fixed spacing \<open>pow2 (- 1074)\<close> for magnitudes below \<open>pow2 (- 1022)\<close>.
\<close>

definition fl :: "rat \<Rightarrow> rat" where
  "fl x = (if x = 0 then 0
           else let q = pow2 (max (binary_exponent x - 52) (- 1074))
                in of_int (round_half_even (x / q)) * q)"

text \<open>
  The double an exact result becomes: a rounded magnitude of \<open>pow2 1024\<close> or more, which is
  one of binary exponent 1024 or more, overflows to the infinity of its sign.
\<close>

definition to_double :: "rat \<Rightarrow> double" where
  "to_double x =
     (let y = fl x
      in if binary_exponent y < 1024 then Finite y else if 0 < y then PosInf else NegInf)"

text \<open>
  A number reaches the program as a decimal, in program text or in JSON, and denotes the
  double nearest to it: \<^verbatim>\<open>100000.2\<close> is the double \<open>fl (1000002 / 10)\<close>, and \<^verbatim>\<open>1e400\<close> is
  \<^verbatim>\<open>Infinity\<close>. \<open>number\<close> reads an input written with any rational in \<open>Finite\<close>; a double
  is read as itself.
\<close>

fun number :: "double \<Rightarrow> double" where
  "number (Finite x) = to_double x"
| "number d = d"

fun double_sign :: "double \<Rightarrow> rat" where
  "double_sign (Finite x) = sgn x"
| "double_sign PosInf = 1"
| "double_sign NegInf = - 1"
| "double_sign NaN = 0"

definition infinity_of_sign :: "rat \<Rightarrow> double" where
  "infinity_of_sign s = (if s = 0 then NaN else if 0 < s then PosInf else NegInf)"

text \<open>
  \<^verbatim>\<open>a * b\<close>. A product with \<^verbatim>\<open>NaN\<close> is \<^verbatim>\<open>NaN\<close>, the product of an infinity and zero is
  \<^verbatim>\<open>NaN\<close>, and any other product with an infinity is the infinity of the product's sign.
\<close>

fun double_mult :: "double \<Rightarrow> double \<Rightarrow> double" where
  "double_mult (Finite x) (Finite y) = to_double (x * y)"
| "double_mult NaN b = NaN"
| "double_mult a NaN = NaN"
| "double_mult a b = infinity_of_sign (double_sign a * double_sign b)"

text \<open>\<^verbatim>\<open>a >= b\<close> and \<^verbatim>\<open>a > b\<close> on numbers: false when either side is \<^verbatim>\<open>NaN\<close>.\<close>

fun double_ge :: "double \<Rightarrow> double \<Rightarrow> bool" where
  "double_ge NaN b = False"
| "double_ge a NaN = False"
| "double_ge (Finite x) (Finite y) = (y \<le> x)"
| "double_ge PosInf b = True"
| "double_ge a NegInf = True"
| "double_ge a b = False"

fun double_gt :: "double \<Rightarrow> double \<Rightarrow> bool" where
  "double_gt NaN b = False"
| "double_gt a NaN = False"
| "double_gt (Finite x) (Finite y) = (y < x)"
| "double_gt PosInf PosInf = False"
| "double_gt PosInf b = True"
| "double_gt NegInf b = False"
| "double_gt a NegInf = True"
| "double_gt a b = False"

section \<open>The analysis orchestrator (src/services/CREIncentivesService.js)\<close>

text \<open>
  The error classes of \<^verbatim>\<open>./errors/index.js\<close> (not among the sources) and the built-in ones the
  evaluators throw. A thrown value is always an \<^verbatim>\<open>Error\<close> object: every \<^verbatim>\<open>throw\<close> in the
  evaluators constructs one, and the platform calls they await reject with one.
\<close>

datatype error_class = ValidationError | APIError | NetworkError | PlainError | TypeError

record js_error =
  error_class :: error_class
  message :: string

text \<open>One element of what \<^verbatim>\<open>Promise.allSettled\<close> resolves to.\<close>

datatype settled = Fulfilled js | Rejected js_error

text \<open>
  The five evaluators talk to the network, so what each of them settles to is not a
  function of the program text: each service is a parameter, the method
  \<^verbatim>\<open>analyzeProperty\<close> calls on it. Each call is an \<^verbatim>\<open>async\<close> method, which never throws
  synchronously.
\<close>

record services =
  ozService :: "js \<Rightarrow> settled"
  htcService :: "js \<Rightarrow> settled"
  nmtcService :: "js \<Rightarrow> settled"
  cpaceService :: "js \<Rightarrow> settled"
  sbaService :: "js \<Rightarrow> js \<Rightarrow> settled"

record program_result =
  status :: string
  error :: "string option"
  available :: js
  data :: js

definition determineAvailability :: "js \<Rightarrow> string \<Rightarrow> js" where
  "determineAvailability d programName =
     (if programName = ''Opportunity Zones'' then js_or (opt_get d ''isOpportunityZone'') (JBool False)
      else if programName = ''Historic Tax Credits''
        then js_or (opt_get (opt_get d ''federalHTC'') ''eligible'') (JBool False)
      else if programName = ''New Markets Tax Credits'' then js_or (opt_get d ''nmtcEligible'') (JBool False)
      else if programName = ''C-PACE Financing'' then js_or (opt_get d ''cpaceAvailable'') (JBool False)
      else if programName = ''SBA 504 Loans'' then js_or (opt_get d ''eligible'') (JBool False)
      else JBool False)"

fun processResult :: "settled \<Rightarrow> string \<Rightarrow> program_result" where
  "processResult (Fulfilled v) programName =
     \<lparr>status = ''success'', error = None,
      available = determineAvailability v programName, data = v\<rparr>"
| "processResult (Rejected reason) programName =
     \<lparr>status = ''error'', error = Some (message reason),
      available = JBool False, data = JNull\<rparr>"

text \<open>
  \<^verbatim>\<open>analysis.incentives\<close> is an object literal; \<^verbatim>\<open>Object.entries\<close> lists its properties in
  the order they are written, so it is an association list.
\<close>

type_synonym incentives = "(string \<times> program_result) list"

datatype priority = High | Medium | Low

record recommendation =
  priority :: priority
  program :: string
  action :: string
  timeline :: string
  benefit :: string
  requirements :: "string list"

definition availableIncentives :: "incentives \<Rightarrow> string list" where
  "availableIncentives inc = map fst (filter (\<lambda>(key, p). truthy (available p)) inc)"

text \<open>The recommendations in the order \<^verbatim>\<open>generateRecommendations\<close> pushes them.\<close>

definition pushedRecommendations :: "incentives \<Rightarrow> recommendation list" where
  "pushedRecommendations inc =
     (let av = availableIncentives inc;
          r1 = (if ''opportunityZones'' \<in> set av then
                  [\<lparr>priority = High, program = ''Opportunity Zones'',
                    action = ''Structure investment through Qualified Opportunity Fund'',
                    timeline = ''Must invest within 180 days of capital gain'',
                    benefit = ''Up to 15% reduction in deferred gains + tax-free appreciation'',
                    requirements = [''Substantial improvement of existing buildings'',
                                    ''Hold investment for 10+ years'']\<rparr>]
                else []);
          r2 = (if ''historicTaxCredits'' \<in> set av then
                  [\<lparr>priority = High, program = ''Historic Tax Credits'',
                    action = ''Apply for Part 1 certification before starting work'',
                    timeline = ''Begin application process immediately'',
                    benefit = ''20% federal tax credit on qualified rehabilitation costs'',
                    requirements = [''Meet Secretary of Interior Standards'',
                                    ''Substantial rehabilitation required'']\<rparr>]
                else []);
          r3 = (if ''newMarketsTC'' \<in> set av then
                  [\<lparr>priority = Medium, program = ''New Markets Tax Credits'',
                    action = ''Contact local CDEs for funding availability'',
                    timeline = ''6-12 months for structuring and closing'',
                    benefit = ''39% tax credit over 7 years'',
                    requirements = [''Located in Low-Income Community'',
                                    ''Meet CDE investment criteria'']\<rparr>]
                else []);
          r4 = (if ''sba504'' \<in> set av then
                  [\<lparr>priority = Medium, program = ''SBA 504 Loans'',
                    action = ''Contact Certified Development Company'',
                    timeline = ''3-6 months for approval and closing'',
                    benefit = ''Fixed-rate financing with only 10% down payment'',
                    requirements = [''Owner occupancy'', ''Job creation/retention'',
                                    ''2+ years in business'']\<rparr>]
                else []);
          r5 = (if ''cpace'' \<in> set av then
                  [\<lparr>priority = Low, program = ''C-PACE Financing'',
                    action = ''Conduct energy audit to identify eligible improvements'',
                    timeline = ''2-4 months for approval and implementation'',
                    benefit = ''100% financing for energy improvements'',
                    requirements = [''Energy savings analysis'',
                                    ''Permanently affixed improvements'']\<rparr>]
                else []);
          recommendations = r1 @ r2 @ r3 @ r4 @ r5
      in if length recommendations = 0 then
           [\<lparr>priority = Medium, program = ''Alternative Financing'',
             action = ''Explore conventional financing and local incentives'',
             timeline = ''Ongoing'',
             benefit = ''Market-rate financing options'',
             requirements = [''Standard underwriting criteria'']\<rparr>]
         else recommendations)"

fun priorityOrder :: "priority \<Rightarrow> int" where
  "priorityOrder High = 3"
| "priorityOrder Medium = 2"
| "priorityOrder Low = 1"

text \<open>
  \<^verbatim>\<open>Array.prototype.sort\<close> with a comparator is a stable sort: an element moves in front of
  another only if the comparator puts it strictly first. The model inserts from the right,
  each element in front of the first one it does not compare greater than.
\<close>

fun sort_insert :: "('a \<Rightarrow> 'a \<Rightarrow> int) \<Rightarrow> 'a \<Rightarrow> 'a list \<Rightarrow> 'a list" where
  "sort_insert cmp x [] = [x]"
| "sort_insert cmp x (y # ys) = (if cmp x y \<le> 0 then x # y # ys else y # sort_insert cmp x ys)"

definition array_sort :: "('a \<Rightarrow> 'a \<Rightarrow> int) \<Rightarrow> 'a list \<Rightarrow> 'a list" where
  "array_sort cmp xs = foldr (sort_insert cmp) xs []"

definition byPriority :: "recommendation \<Rightarrow> recommendation \<Rightarrow> int" where
  "byPriority a b = priorityOrder (priority b) - priorityOrder (priority a)"

definition generateRecommendations :: "incentives \<Rightarrow> js \<Rightarrow> recommendation list" where
  "generateRecommendations inc projectDetails = array_sort byPriority (pushedRecommendations inc)"

text \<open>\<^verbatim>\<open>extractLocationInfo\<close>: an object, or \<^verbatim>\<open>null\<close>.\<close>

definition extractLocationInfo :: "settled \<Rightarrow> js" where
  "extractLocationInfo ozResults =
     (case ozResults of
        Fulfilled v \<Rightarrow>
          if truthy v
          then JObj [(''coordinates'', opt_get v ''coordinates''),
                     (''censusData'', opt_get v ''censusData''),
                     (''formattedAddress'', opt_get v ''address'')]
          else JNull
      | Rejected reason \<Rightarrow> JNull)"

record programInfo =
  name :: string
  shortDescription :: string
  estimatedValue :: int
  timeframe :: string
  complexity :: string

text \<open>
  \<^verbatim>\<open>getProgramSummaryInfo(key, data)\<close>: the entry of \<^verbatim>\<open>programMap\<close> for a key of
  \<^verbatim>\<open>analysis.incentives\<close>, otherwise the record for an unknown program.
\<close>

definition getProgramSummaryInfo :: "string \<Rightarrow> js \<Rightarrow> programInfo" where
  "getProgramSummaryInfo key d =
     (if key = ''opportunityZones'' then
        \<lparr>name = ''Opportunity Zones'',
         shortDescription = ''Tax deferral and elimination on capital gains'',
         estimatedValue = 150000,
         timeframe = ''10 years for maximum benefit'',
         complexity = ''Medium''\<rparr>
      else if key = ''historicTaxCredits'' then
        \<lparr>name = ''Historic Tax Credits'',
         shortDescription = ''20% federal tax credit on rehabilitation costs'',
         estimatedValue = 200000,
         timeframe = ''5 years to claim credits'',
         complexity = ''High''\<rparr>
      else if key = ''newMarketsTC'' then
        \<lparr>name = ''New Markets Tax Credits'',
         shortDescription = ''39% tax credit over 7 years'',
         estimatedValue = 390000,
         timeframe = ''7 years'',
         complexity = ''High''\<rparr>
      else if key = ''cpace'' then
        \<lparr>name = ''C-PACE Financing'',
         shortDescription = ''100% financing for energy improvements'',
         estimatedValue = 50000,
         timeframe = ''Up to 25 years'',
         complexity = ''Low''\<rparr>
      else if key = ''sba504'' then
        \<lparr>name = ''SBA 504 Loans'',
         shortDescription = ''Low down payment, fixed-rate financing'',
         estimatedValue = 75000,
         timeframe = ''10-20 years'',
         complexity = ''Medium''\<rparr>
      else
        \<lparr>name = ''Unknown Program'',
         shortDescription = ''Program details not available'',
         estimatedValue = 0,
         timeframe = ''Unknown'',
         complexity = ''Unknown''\<rparr>)"

definition assessRiskLevel :: "programInfo list \<Rightarrow> string" where
  "assessRiskLevel programs =
     (if length programs = 0 then ''High''
      else if length programs \<ge> 3 then ''Low''
      else ''Medium'')"

record summary =
  totalProgramsAvailable :: nat
  availablePrograms :: "programInfo list"
  potentialPrograms :: "programInfo list"
  estimatedTotalValue :: int
  primaryRecommendation :: string
  riskLevel :: string

text \<open>
  \<^verbatim>\<open>generateSummary\<close>: the \<^verbatim>\<open>forEach\<close> pushes the successful available programs to one
  list and the successful unavailable ones to the other, in the order of the entries.
\<close>

definition generateSummary :: "incentives \<Rightarrow> summary" where
  "generateSummary inc =
     (let available_infos =
            map (\<lambda>(key, p). getProgramSummaryInfo key (data p))
              (filter (\<lambda>(key, p). status p = ''success'' \<and> truthy (available p)) inc);
          potential_infos =
            map (\<lambda>(key, p). getProgramSummaryInfo key (data p))
              (filter (\<lambda>(key, p). status p = ''success'' \<and> \<not> truthy (available p)) inc);
          totalEstimatedValue = sum_list (map estimatedValue available_infos)
      in \<lparr>totalProgramsAvailable = length available_infos,
          availablePrograms = available_infos,
          potentialPrograms = potential_infos,
          estimatedTotalValue = totalEstimatedValue,
          primaryRecommendation =
            (case available_infos of
               [] \<Rightarrow> ''Explore alternative financing options''
             | info # _ \<Rightarrow> name info),
          riskLevel = assessRiskLevel available_infos\<rparr>)"

text \<open>\<^verbatim>\<open>getProgramName(key)\<close>: \<^verbatim>\<open>nameMap[key] || key\<close>, for a key of \<^verbatim>\<open>analysis.incentives\<close>.\<close>

definition getProgramName :: "string \<Rightarrow> string" where
  "getProgramName key =
     (if key = ''opportunityZones'' then ''Opportunity Zones''
      else if key = ''historicTaxCredits'' then ''Historic Tax Credits''
      else if key = ''newMarketsTC'' then ''New Markets Tax Credits''
      else if key = ''cpace'' then ''C-PACE''
      else if key = ''sba504'' then ''SBA 504''
      else key)"

text \<open>A stacking opportunity; \<open>stackingValue\<close> is its property \<^verbatim>\<open>estimatedValue\<close>, a string.\<close>

record stackingOpportunity =
  programs :: "string list"
  compatibility :: string
  combinedBenefit :: string
  considerations :: "string list"
  stackingValue :: string

definition identifyStackingOpportunities :: "incentives \<Rightarrow> stackingOpportunity list" where
  "identifyStackingOpportunities inc =
     (let av = availableIncentives inc;
          s1 = (if ''historicTaxCredits'' \<in> set av \<and> ''opportunityZones'' \<in> set av then
                  [\<lparr>programs = [''Historic Tax Credits'', ''Opportunity Zones''],
                    compatibility = ''High'',
                    combinedBenefit = ''Federal HTC + OZ capital gains benefits'',
                    considerations = [''Ensure OZ compliance with historic standards'',
                                      ''Timing coordination required''],
                    stackingValue = ''Very High''\<rparr>]
                else []);
          s2 = (if ''newMarketsTC'' \<in> set av \<and> ''historicTaxCredits'' \<in> set av then
                  [\<lparr>programs = [''New Markets Tax Credits'', ''Historic Tax Credits''],
                    compatibility = ''Medium'',
                    combinedBenefit = ''NMTC + HTC can exceed 50% of project cost'',
                    considerations = [''Complex structuring required'',
                                      ''Professional expertise essential''],
                    stackingValue = ''Very High''\<rparr>]
                else []);
          s3 = (if ''sba504'' \<in> set av then
                  (let otherPrograms = filter (\<lambda>p. p \<noteq> ''sba504'') av
                   in if length otherPrograms > 0 then
                        [\<lparr>programs = ''SBA 504'' # map getProgramName otherPrograms,
                          compatibility = ''High'',
                          combinedBenefit = ''Low-cost debt + tax credit benefits'',
                          considerations = [''SBA approval of other incentives may be required''],
                          stackingValue = ''High''\<rparr>]
                      else [])
                else []);
          s4 = (if ''cpace'' \<in> set av \<and> length av > 1 then
                  (let otherPrograms = filter (\<lambda>p. p \<noteq> ''cpace'') av
                   in [\<lparr>programs = ''C-PACE'' # map getProgramName otherPrograms,
                        compatibility = ''High'',
                        combinedBenefit = ''Energy financing + tax benefits'',
                        considerations = [''C-PACE generally compatible with other programs''],
                        stackingValue = ''Medium''\<rparr>])
                else [])
      in s1 @ s2 @ s3 @ s4)"

text \<open>
  The analysis. The two time stamps \<^verbatim>\<open>analysisDate\<close> and \<^verbatim>\<open>processingTime\<close>, read from the
  clock, are left out.
\<close>

record analysis =
  address :: js
  location :: js
  incentives :: incentives
  summary :: summary
  recommendations :: "recommendation list"
  stackingOpportunities :: "stackingOpportunity list"

text \<open>
  \<^verbatim>\<open>analyzeProperty(address, projectDetails = {})\<close>. \<open>JUndefined\<close> for \<open>projectDetails\<close> is the
  omitted argument. Reading \<^verbatim>\<open>projectDetails.business\<close> throws a \<^verbatim>\<open>TypeError\<close> when
  \<open>projectDetails\<close> is \<^verbatim>\<open>null\<close>; the \<^verbatim>\<open>catch\<close> clause rethrows it as an \<^verbatim>\<open>APIError\<close> whose
  message quotes the engine's text. This happens while the arguments of \<^verbatim>\<open>Promise.allSettled\<close>
  are computed, after the first four evaluators have been called: what they settle to is
  never read. Nothing after the evaluators have settled can throw.
\<close>

definition analyzeProperty :: "services \<Rightarrow> js \<Rightarrow> js \<Rightarrow> js_error + analysis" where
  "analyzeProperty svc addr projectDetails_arg =
     (let projectDetails = (if projectDetails_arg = JUndefined then JObj [] else projectDetails_arg)
      in if \<not> truthy addr \<or> (case addr of JStr s \<Rightarrow> False | _ \<Rightarrow> True)
         then Inl \<lparr>error_class = ValidationError, message = ''Valid address is required''\<rparr>
         else if projectDetails = JNull
         then Inl \<lparr>error_class = APIError,
                   message = ''Analysis failed: Cannot read properties of null (reading 'business')''\<rparr>
         else
           let ozResults = ozService svc addr;
               htcResults = htcService svc addr;
               nmtcResults = nmtcService svc addr;
               cpaceResults = cpaceService svc addr;
               sbaResults = sbaService svc addr (js_or (opt_get projectDetails ''business'') (JObj []));
               inc = [(''opportunityZones'', processResult ozResults ''Opportunity Zones''),
                      (''historicTaxCredits'', processResult htcResults ''Historic Tax Credits''),
                      (''newMarketsTC'', processResult nmtcResults ''New Markets Tax Credits''),
                      (''cpace'', processResult cpaceResults ''C-PACE Financing''),
                      (''sba504'', processResult sbaResults ''SBA 504 Loans'')]
           in Inr \<lparr>address = addr,
                   location = extractLocationInfo ozResults,
                   incentives = inc,
                   summary = generateSummary inc,
                   recommendations = generateRecommendations inc projectDetails,
                   stackingOpportunities = identifyStackingOpportunities inc\<rparr>)"

text \<open>
  The program keys with the program names \<^verbatim>\<open>generateRecommendations\<close> gives them, in the
  order of its \<^verbatim>\<open>if\<close> blocks.
\<close>

definition recommendedPrograms :: "(string \<times> string) list" where
  "recommendedPrograms =
     [(''opportunityZones'', ''Opportunity Zones''),
      (''historicTaxCredits'', ''Historic Tax Credits''),
      (''newMarketsTC'', ''New Markets Tax Credits''),
      (''sba504'', ''SBA 504 Loans''),
      (''cpace'', ''C-PACE Financing'')]"

text \<open>The priority the specification fixes for each program (section 4.4).\<close>

definition specifiedPriority :: "(string \<times> priority) list" where
  "specifiedPriority =
     [(''Opportunity Zones'', High),
      (''Historic Tax Credits'', High),
      (''New Markets Tax Credits'', Medium),
      (''SBA 504 Loans'', Medium),
      (''C-PACE Financing'', Low)]"


definition demo_address :: js where
  "demo_address = JStr (js_str ''1 Main St'')"

definition demo_incentives :: incentives where
  "demo_incentives =
     [(''opportunityZones'',
         \<lparr>status = ''error'', error = Some ''Unable to geocode address'',
          available = JBool False, data = JNull\<rparr>),
      (''historicTaxCredits'',
         \<lparr>status = ''success'', error = None, available = JBool True,
          data = JObj [(''address'', demo_address),
                       (''federalHTC'', JObj [(''eligible'', JBool True)])]\<rparr>),
      (''newMarketsTC'',
         \<lparr>status = ''success'', error = None, available = JBool False,
          data = JObj [(''address'', demo_address), (''nmtcEligible'', JBool False)]\<rparr>),
      (''cpace'',
         \<lparr>status = ''success'', error = None, available = JBool True,
          data = JObj [(''address'', demo_address), (''cpaceAvailable'', JBool True)]\<rparr>),
      (''sba504'',
         \<lparr>status = ''success'', error = None, available = JBool True,
          data = JObj [(''address'', demo_address), (''eligible'', JBool True)]\<rparr>)]"

section \<open>The report compiler: financial projections\<close>

text \<open>\<^verbatim>\<open>Math.round\<close>: the nearest integer, halves rounded up.\<close>

definition Math_round :: "rat \<Rightarrow> int" where
  "Math_round x = \<lfloor>x + 1 / 2\<rfloor>"

record base_case =
  projectCost :: rat
  downPayment :: rat
  loanAmount :: rat
  interestRate :: rat
  monthlyPayment :: int
  totalInterest :: int
  totalCost :: int

text \<open>
  \<^verbatim>\<open>calculateBaseCase\<close>, the conventional-financing scenario, in exact arithmetic
  (\<^verbatim>\<open>Math.pow\<close> is the exact power).
\<close>

definition calculateBaseCase :: "rat \<Rightarrow> base_case" where
  "calculateBaseCase cost =
     (let downPayment = cost * 0.25;
          loanAmount = cost * 0.75;
          interestRate = 0.07;
          term = 20;
          monthlyRate = interestRate / 12;
          payments = term * 12;
          monthlyPayment = loanAmount * (monthlyRate * (1 + monthlyRate) ^ payments)
                             / ((1 + monthlyRate) ^ payments - 1)
      in \<lparr>projectCost = cost,
          downPayment = downPayment,
          loanAmount = loanAmount,
          interestRate = interestRate,
          monthlyPayment = Math_round monthlyPayment,
          totalInterest = Math_round (monthlyPayment * of_nat payments - loanAmount),
          totalCost = Math_round (downPayment + monthlyPayment * of_nat payments)\<rparr>)"

text \<open>
  The incentive-adjusted scenario. The field \<^verbatim>\<open>estimatedROI\<close>, a number formatted by
  \<^verbatim>\<open>toFixed(1)\<close>, is left out, as is \<^verbatim>\<open>savingsPercentage\<close> in the comparison.
\<close>

record with_incentives =
  incentiveProjectCost :: rat
  taxCredits :: rat
  interestSavings :: rat
  netProjectCost :: rat

text \<open>
  One round of the \<^verbatim>\<open>forEach\<close> over \<^verbatim>\<open>Object.entries(analysis.incentives)\<close>; the pair
  holds the running \<^verbatim>\<open>taxCredits\<close> and \<^verbatim>\<open>interestSavings\<close>.
\<close>

definition incentiveStep :: "rat \<Rightarrow> string \<times> program_result \<Rightarrow> rat \<times> rat \<Rightarrow> rat \<times> rat" where
  "incentiveStep cost entry acc =
     (case entry of (key, p) \<Rightarrow>
      case acc of (credits, savings) \<Rightarrow>
        if truthy (available p) then
          (if key = ''historicTaxCredits'' then (credits + cost * 0.20, savings)
           else if key = ''newMarketsTC'' then (credits + (cost * 0.25) * 0.39, savings)
           else if key = ''sba504'' then (credits, savings + 50000)
           else if key = ''cpace'' then (credits, savings + 25000)
           else (credits, savings))
        else (credits, savings))"

definition calculateWithIncentives :: "rat \<Rightarrow> analysis \<Rightarrow> with_incentives" where
  "calculateWithIncentives cost an =
     (let adjustedCost = cost;
          (credits, savings) = fold (incentiveStep cost) (incentives an) (0, 0)
      in \<lparr>incentiveProjectCost = cost,
          taxCredits = credits,
          interestSavings = savings,
          netProjectCost = adjustedCost - credits\<rparr>)"

text \<open>\<^verbatim>\<open>paybackPeriod\<close> is \<open>None\<close> where the source gives the string \<^verbatim>\<open>'N/A'\<close>.\<close>

record comparison =
  totalSavings :: int
  paybackPeriod :: "int option"
  recommendation :: string

definition compareScenarios :: "base_case \<Rightarrow> with_incentives \<Rightarrow> comparison" where
  "compareScenarios baseCase withIncentives =
     (let savings = of_int (totalCost baseCase) - netProjectCost withIncentives
      in \<lparr>totalSavings = Math_round savings,
          paybackPeriod = (if savings > 0 then Some (Math_round (taxCredits withIncentives / 50000))
                           else None),
          recommendation = (if savings > 100000 then ''Strongly Recommended''
                            else if savings > 50000 then ''Recommended''
                            else ''Consider Carefully'')\<rparr>)"

record projections =
  baseCase :: base_case
  withIncentives :: with_incentives
  comparison :: comparison

text \<open>
  \<^verbatim>\<open>generateFinancialProjections(analysis, projectDetails)\<close>: the second argument here is
  \<^verbatim>\<open>projectDetails.projectCost\<close>, a number or \<open>None\<close> when the property is absent;
  \<^verbatim>\<open>projectDetails.projectCost || 2000000\<close> replaces an absent or zero cost by the default.
\<close>

definition generateFinancialProjections :: "analysis \<Rightarrow> rat option \<Rightarrow> projections" where
  "generateFinancialProjections an projectCost_arg =
     (let cost = (case projectCost_arg of
                    None \<Rightarrow> 2000000
                  | Some c \<Rightarrow> if c \<noteq> 0 then c else 2000000);
          b = calculateBaseCase cost;
          w = calculateWithIncentives cost an
      in \<lparr>baseCase = b, withIncentives = w, comparison = compareScenarios b w\<rparr>)"

text \<open>
  Three analyses for the financial projections: the one of the run above (Historic Tax
  Credits, C-PACE and SBA 504 available), one with exactly Historic Tax Credits and SBA 504
  available, and one in which every evaluator failed.
\<close>

definition demo_analysis :: analysis where
  "demo_analysis =
     \<lparr>address = demo_address, location = JNull, incentives = demo_incentives,
      summary = generateSummary demo_incentives,
      recommendations = generateRecommendations demo_incentives (JObj []),
      stackingOpportunities = identifyStackingOpportunities demo_incentives\<rparr>"

definition htc_sba_incentives :: incentives where
  "htc_sba_incentives =
     [(''opportunityZones'',
         \<lparr>status = ''success'', error = None, available = JBool False,
          data = JObj [(''isOpportunityZone'', JBool False)]\<rparr>),
      (''historicTaxCredits'',
         \<lparr>status = ''success'', error = None, available = JBool True,
          data = JObj [(''federalHTC'', JObj [(''eligible'', JBool True)])]\<rparr>),
      (''newMarketsTC'',
         \<lparr>status = ''success'', error = None, available = JBool False,
          data = JObj [(''nmtcEligible'', JBool False)]\<rparr>),
      (''cpace'',
         \<lparr>status = ''success'', error = None, available = JBool False,
          data = JObj [(''cpaceAvailable'', JBool False)]\<rparr>),
      (''sba504'',
         \<lparr>status = ''success'', error = None, available = JBool True,
          data = JObj [(''eligible'', JBool True)]\<rparr>)]"

definition htc_sba_analysis :: analysis where
  "htc_sba_analysis =
     \<lparr>address = demo_address, location = JNull, incentives = htc_sba_incentives,
      summary = generateSummary htc_sba_incentives,
      recommendations = generateRecommendations htc_sba_incentives (JObj []),
      stackingOpportunities = identifyStackingOpportunities htc_sba_incentives\<rparr>"

definition failed_incentives :: incentives where
  "failed_incentives =
     map (\<lambda>key. (key, \<lparr>status = ''error'', error = Some ''Unable to geocode address'',
                        available = JBool False, data = JNull\<rparr>))
       [''opportunityZones'', ''historicTaxCredits'', ''newMarketsTC'', ''cpace'', ''sba504'']"

definition failed_analysis :: analysis where
  "failed_analysis =
     \<lparr>address = demo_address, location = JNull, incentives = failed_incentives,
      summary = generateSummary failed_incentives,
      recommendations = generateRecommendations failed_incentives (JObj []),
      stackingOpportunities = identifyStackingOpportunities failed_incentives\<rparr>"

section \<open>SBA 504 eligibility (src/services/api/SBAService.js)\<close>

text \<open>
  \<^verbatim>\<open>businessInfo\<close> as \<^verbatim>\<open>validateBusinessInfo\<close> describes it: each property is a number (a
  string for \<^verbatim>\<open>industry\<close>) or \<^verbatim>\<open>undefined\<close>, here \<open>None\<close>. A number is any double, \<^verbatim>\<open>NaN\<close>
  and the infinities included, and is given as the caller writes it; \<open>number\<close> reads it.
  The destructuring in \<^verbatim>\<open>assessSBA504Eligibility\<close> gives an undefined property its default.
\<close>

record businessInfo =
  employeeCount :: "double option"
  averageAnnualReceipts :: "double option"
  industry :: "string option"
  businessAge :: "double option"
  ownerEquity :: "double option"
  projectCost :: "double option"
  ownerOccupancy :: "double option"

definition orDefault :: "'a option \<Rightarrow> 'a \<Rightarrow> 'a" where
  "orDefault v d = (case v of None \<Rightarrow> d | Some x \<Rightarrow> x)"

text \<open>
  The table of \<^verbatim>\<open>checkSizeStandards\<close>: for each industry the employee limit and the receipts
  limit, \<open>None\<close> for \<^verbatim>\<open>null\<close>.
\<close>

definition sizeStandardsTable :: "(string \<times> rat option \<times> rat option) list" where
  "sizeStandardsTable =
     [(''retail'', Some 500, Some 8000000),
      (''manufacturing'', Some 1500, None),
      (''construction'', None, Some 42000000),
      (''professional_services'', None, Some 8500000),
      (''real_estate'', None, Some 8000000),
      (''hospitality'', None, Some 8500000),
      (''other'', Some 500, Some 8000000)]"

text \<open>
  \<^verbatim>\<open>sizeStandards[industry]\<close> also finds the properties every object inherits from
  \<^verbatim>\<open>Object.prototype\<close>; such a value is truthy and has neither an \<^verbatim>\<open>employees\<close> nor a
  \<^verbatim>\<open>receipts\<close> property.
\<close>

definition objectPrototypeNames :: "string list" where
  "objectPrototypeNames =
     [''constructor'', ''hasOwnProperty'', ''isPrototypeOf'', ''propertyIsEnumerable'',
      ''toLocaleString'', ''toString'', ''valueOf'', ''__defineGetter__'', ''__defineSetter__'',
      ''__lookupGetter__'', ''__lookupSetter__'', ''__proto__'']"

definition lookupSizeStandard :: "string \<Rightarrow> rat option \<times> rat option" where
  "lookupSizeStandard ind =
     (case map_of sizeStandardsTable ind of
        Some standard \<Rightarrow> standard
      | None \<Rightarrow> if ind \<in> set objectPrototypeNames then (None, None)
                else (Some 500, Some 8000000))"

text \<open>\<^verbatim>\<open>limit && n > limit\<close> for a limit that is a positive number or \<^verbatim>\<open>null\<close>.\<close>

definition exceeds :: "rat option \<Rightarrow> double \<Rightarrow> bool" where
  "exceeds limit n =
     (case limit of None \<Rightarrow> False | Some l \<Rightarrow> l \<noteq> 0 \<and> double_gt n (Finite l))"

definition checkSizeStandards :: "double \<Rightarrow> double \<Rightarrow> string \<Rightarrow> bool" where
  "checkSizeStandards employees receipts ind =
     (case lookupSizeStandard ind of (employeeLimit, receiptsLimit) \<Rightarrow>
        if exceeds employeeLimit employees then False
        else if exceeds receiptsLimit receipts then False
        else True)"

record eligibilityChecks =
  sizeStandards :: bool
  businessAge :: bool
  ownerEquity :: bool
  ownerOccupancy :: bool
  creditworthiness :: bool
  jobCreation :: bool

definition getEligibilityRecommendations :: "eligibilityChecks \<Rightarrow> string list" where
  "getEligibilityRecommendations c =
     (let recs =
            (if \<not> sizeStandards c
             then [''Business exceeds SBA size standards for this industry''] else [])
          @ (if \<not> businessAge c
             then [''Business needs 2+ years operating history''] else [])
          @ (if \<not> ownerEquity c
             then [''Increase owner equity to at least 10% of project cost''] else [])
          @ (if \<not> ownerOccupancy c
             then [''Ensure owner will occupy at least 51% of property''] else [])
      in if length recs = 0
         then [''Business appears to meet basic SBA 504 eligibility criteria'']
         else recs)"

record eligibilityDetails =
  sizeStandardsMet :: bool
  sufficientBusinessHistory :: bool
  adequateEquity :: bool
  ownerOccupancyMet :: bool
  estimatedApprovalProbability :: string

record eligibility =
  eligible :: bool
  checks :: eligibilityChecks
  details :: eligibilityDetails
  eligibilityRecommendations :: "string list"

text \<open>
  The literal \<^verbatim>\<open>0.10\<close> is the double nearest to one tenth, and \<^verbatim>\<open>projectCost * 0.10\<close> is the
  rounded product with it.
\<close>

definition assessSBA504Eligibility :: "businessInfo \<Rightarrow> eligibility" where
  "assessSBA504Eligibility info =
     (let employees = number (orDefault (employeeCount info) (Finite 0));
          receipts = number (orDefault (averageAnnualReceipts info) (Finite 0));
          ind = orDefault (industry info) ''other'';
          age = number (orDefault (businessInfo.businessAge info) (Finite 0));
          equity = number (orDefault (businessInfo.ownerEquity info) (Finite 0));
          cost = number (orDefault (projectCost info) (Finite 0));
          occupancy = number (orDefault (businessInfo.ownerOccupancy info) (Finite 51));
          eligibilityChecks =
            \<lparr>sizeStandards = checkSizeStandards employees receipts ind,
             businessAge = double_ge age (Finite 2),
             ownerEquity = double_ge equity (double_mult cost (Finite (fl (1 / 10)))),
             ownerOccupancy = double_ge occupancy (Finite 51),
             creditworthiness = True,
             jobCreation = True\<rparr>;
          allPass = list_all (\<lambda>check. check = True)
                      [sizeStandards eligibilityChecks, businessAge eligibilityChecks,
                       ownerEquity eligibilityChecks, ownerOccupancy eligibilityChecks,
                       creditworthiness eligibilityChecks, jobCreation eligibilityChecks]
      in \<lparr>eligible = allPass,
          checks = eligibilityChecks,
          details = \<lparr>sizeStandardsMet = sizeStandards eligibilityChecks,
                     sufficientBusinessHistory = businessAge eligibilityChecks,
                     adequateEquity = ownerEquity eligibilityChecks,
                     ownerOccupancyMet = ownerOccupancy eligibilityChecks,
                     estimatedApprovalProbability =
                       (if allPass then ''High'' else ''Needs improvement'')\<rparr>,
          eligibilityRecommendations = getEligibilityRecommendations eligibilityChecks\<rparr>)"

text \<open>
  The critical checks the specification names (section 4.2): size standard, financial caps
  (here the equity test), use of funds (this class has no such check) and job creation.
\<close>

definition specifiedCriticalChecks :: "eligibilityChecks \<Rightarrow> bool" where
  "specifiedCriticalChecks c = (sizeStandards c \<and> ownerEquity c \<and> jobCreation c)"

text \<open>
  Five inputs: the empty object, an established retail business, the same business occupying
  40% of its building, and the business with two other pairs of owner equity and project
  cost, \<^verbatim>\<open>{ownerEquity: 100000.2, projectCost: 1000002}\<close> and
  \<^verbatim>\<open>{ownerEquity: 16384.3, projectCost: 163843}\<close>.
\<close>

definition emptyBusinessInfo :: businessInfo where
  "emptyBusinessInfo =
     \<lparr>employeeCount = None, averageAnnualReceipts = None, industry = None,
      businessAge = None, ownerEquity = None, projectCost = None, ownerOccupancy = None\<rparr>"

definition establishedBusiness :: businessInfo where
  "establishedBusiness =
     \<lparr>employeeCount = Some (Finite 40), averageAnnualReceipts = Some (Finite 3000000),
      industry = Some ''retail'', businessAge = Some (Finite 5),
      ownerEquity = Some (Finite 200000), projectCost = Some (Finite 1500000),
      ownerOccupancy = Some (Finite 60)\<rparr>"

definition landlordBusiness :: businessInfo where
  "landlordBusiness = establishedBusiness\<lparr>businessInfo.ownerOccupancy := Some (Finite 40)\<rparr>"

definition shortEquityBusiness :: businessInfo where
  "shortEquityBusiness =
     establishedBusiness\<lparr>businessInfo.ownerEquity := Some (Finite 100000.2),
                           projectCost := Some (Finite 1000002)\<rparr>"

definition roundedEquityBusiness :: businessInfo where
  "roundedEquityBusiness =
     establishedBusiness\<lparr>businessInfo.ownerEquity := Some (Finite 16384.3),
                           projectCost := Some (Finite 163843)\<rparr>"

section \<open>Address validation and normalization (src/services/utils/validation.js)\<close>

text \<open>
  The character classes of the regular expressions, on UTF-16 code units: \<^verbatim>\<open>\s\<close> (the same
  set \<^verbatim>\<open>String.prototype.trim\<close> removes), \<^verbatim>\<open>\d\<close>, \<^verbatim>\<open>[a-zA-Z]\<close> and \<^verbatim>\<open>\w\<close>.
\<close>

definition is_space :: "code_unit \<Rightarrow> bool" where
  "is_space c = (c \<in> {9, 10, 11, 12, 13, 32, 160, 5760, 8232, 8233, 8239, 8287, 12288, 65279}
                 \<or> (8192 \<le> c \<and> c \<le> 8202))"

definition is_digit :: "code_unit \<Rightarrow> bool" where
  "is_digit c = (48 \<le> c \<and> c \<le> 57)"

definition is_letter :: "code_unit \<Rightarrow> bool" where
  "is_letter c = ((65 \<le> c \<and> c \<le> 90) \<or> (97 \<le> c \<and> c \<le> 122))"

definition is_word :: "code_unit \<Rightarrow> bool" where
  "is_word c = (is_letter c \<or> is_digit c \<or> c = 95)"

definition trim :: "js_string \<Rightarrow> js_string" where
  "trim s = rev (dropWhile is_space (rev (dropWhile is_space s)))"

text \<open>\<^verbatim>\<open>.replace(/\s+/g, ' ')\<close>: every maximal run of white space becomes one space.\<close>

function collapse_ws :: "js_string \<Rightarrow> js_string" where
  "collapse_ws [] = []"
| "collapse_ws (c # cs) =
     (if is_space c then 32 # collapse_ws (dropWhile is_space cs) else c # collapse_ws cs)"
  by pat_completeness auto
termination
  by (relation "measure length") (auto simp: length_dropWhile_le less_Suc_eq_le)

text \<open>
  The alternatives of the suffix pattern, in the order the pattern tries them, and the
  callback's \<^verbatim>\<open>abbrevMap\<close>.
\<close>

definition suffixAlternatives :: "string list" where
  "suffixAlternatives =
     [''street'', ''st'', ''avenue'', ''ave'', ''boulevard'', ''blvd'', ''road'', ''rd'',
      ''drive'', ''dr'', ''lane'', ''ln'', ''court'', ''ct'', ''place'', ''pl'']"

definition abbrevMap :: "(string \<times> string) list" where
  "abbrevMap =
     [(''street'', ''St''), (''avenue'', ''Ave''), (''boulevard'', ''Blvd''), (''road'', ''Rd''),
      (''drive'', ''Dr''), (''lane'', ''Ln''), (''court'', ''Ct''), (''place'', ''Pl'')]"

text \<open>
  Case-insensitive matching without the \<^verbatim>\<open>u\<close> flag never equates a code unit of 128 or
  more with an ASCII letter, so an input code unit matches a lower-case ASCII letter of the
  pattern exactly when its ASCII lower case is that letter. A match therefore consists of
  ASCII letters, and \<^verbatim>\<open>match.toLowerCase()\<close> is its ASCII lower case.
\<close>

definition ascii_lower :: "code_unit \<Rightarrow> code_unit" where
  "ascii_lower c = (if 65 \<le> c \<and> c \<le> 90 then c + 32 else c)"

text \<open>
  \<^verbatim>\<open>\b\<close> at a position: the code unit before it and the code unit after it differ in being
  word characters (the ends of the string count as non-word).
\<close>

definition word_boundary :: "bool \<Rightarrow> js_string \<Rightarrow> bool" where
  "word_boundary prev_is_word rest =
     (prev_is_word \<noteq> (case rest of [] \<Rightarrow> False | c # _ \<Rightarrow> is_word c))"

text \<open>
  The alternation followed by the closing \<^verbatim>\<open>\b\<close>, tried at the start of \<open>s\<close>: the length of
  the first alternative that matches with a word boundary behind it.
\<close>

fun first_alternative :: "string list \<Rightarrow> js_string \<Rightarrow> nat option" where
  "first_alternative [] s = None"
| "first_alternative (a # alts) s =
     (let n = length a
      in if n \<le> length s \<and> map ascii_lower (take n s) = js_str a
            \<and> word_boundary (is_word (last (take n s))) (drop n s)
         then Some n
         else first_alternative alts s)"

text \<open>
  A match attempt of the whole pattern at a position; \<open>prev_is_word\<close> describes the code
  unit before it.
\<close>

definition match_at :: "bool \<Rightarrow> js_string \<Rightarrow> nat option" where
  "match_at prev_is_word s =
     (if word_boundary prev_is_word s then first_alternative suffixAlternatives s else None)"

text \<open>The callback: \<^verbatim>\<open>abbrevMap[match.toLowerCase()] || match\<close>.\<close>

definition abbreviate :: "js_string \<Rightarrow> js_string" where
  "abbreviate m =
     (case map_of (map (\<lambda>(k, v). (js_str k, js_str v)) abbrevMap) (map ascii_lower m) of
        Some a \<Rightarrow> a
      | None \<Rightarrow> m)"

text \<open>
  The global replace: scan from the left; where the pattern matches, emit the callback's
  result and go on behind the match, otherwise emit the code unit and go on behind it.
\<close>

function replace_suffixes :: "bool \<Rightarrow> js_string \<Rightarrow> js_string" where
  "replace_suffixes prev_is_word [] = []"
| "replace_suffixes prev_is_word (c # cs) =
     (case match_at prev_is_word (c # cs) of
        Some n \<Rightarrow>
          abbreviate (take n (c # cs))
          @ replace_suffixes (is_word (last (take n (c # cs)))) (drop n (c # cs))
      | None \<Rightarrow> c # replace_suffixes (is_word c) cs)"
  by pat_completeness auto

lemma first_alternative_length:
  "first_alternative alts s = Some n \<Longrightarrow> n \<in> length ` set alts"
  by (induction alts) (auto simp: Let_def split: if_splits)

lemma match_at_positive: "match_at p s = Some n \<Longrightarrow> 0 < n"
  by (auto simp: match_at_def suffixAlternatives_def split: if_splits
           dest!: first_alternative_length)

termination replace_suffixes
  by (relation "measure (\<lambda>(p, s). length s)") (auto dest: match_at_positive)

definition normalizeAddress :: "js_string \<Rightarrow> js_string" where
  "normalizeAddress addr = replace_suffixes False (collapse_ws (trim addr))"

record validation =
  isValid :: bool
  errors :: "string list"
  warnings :: "string list"
  normalized :: "js_string option"

definition validateAddress :: "js \<Rightarrow> validation" where
  "validateAddress addr =
     (case addr of
        JStr s \<Rightarrow>
          (let trimmed = trim s
           in if length trimmed = 0
              then \<lparr>isValid = False, errors = [''Address cannot be empty''], warnings = [],
                    normalized = None\<rparr>
              else
                let w1 = (if length trimmed < 10 then [''Address appears to be incomplete''] else []);
                    hasNumber = list_ex is_digit trimmed;
                    hasStreetName = list_ex is_letter trimmed;
                    w2 = (if \<not> hasNumber then [''Address should include a street number''] else []);
                    errs = (if \<not> hasStreetName then [''Address should include a street name'']
                            else [])
                in \<lparr>isValid = (length errs = 0), errors = errs, warnings = w1 @ w2,
                    normalized = Some (normalizeAddress trimmed)\<rparr>)
      | _ \<Rightarrow> \<lparr>isValid = False, errors = [''Address must be a string''], warnings = [],
               normalized = None\<rparr>)"

text \<open>\<^verbatim>\<open>errors.join(', ')\<close>\<close>

fun join_comma :: "string list \<Rightarrow> string" where
  "join_comma [] = []"
| "join_comma [x] = x"
| "join_comma (x # y # ys) = x @ '', '' @ join_comma (y # ys)"

text \<open>
  \<^verbatim>\<open>BaseAPIService.validateAddress\<close>, the first step of every evaluator: the normalized address,
  or a thrown \<^verbatim>\<open>ValidationError\<close>. (\<^verbatim>\<open>validation.normalized\<close> is \<^verbatim>\<open>null\<close> only where
  \<^verbatim>\<open>isValid\<close> is false, so the last case below is never taken.)
\<close>

definition service_validateAddress :: "js \<Rightarrow> js_error + js_string" where
  "service_validateAddress addr =
     (let v = validateAddress addr
      in if \<not> isValid v
         then Inl \<lparr>error_class = ValidationError,
                   message = ''Invalid address: '' @ join_comma (errors v)\<rparr>
         else (case normalized v of Some n \<Rightarrow> Inr n | None \<Rightarrow> Inr []))"

text \<open>
  Notions for the proof that normalization is idempotent: a string is tidy when it neither
  starts nor ends with white space and its white space consists of single spaces;
  \<open>replace_word\<close> is what the suffix replacement does to one maximal run of word characters.
\<close>

fun tidy_tail :: "js_string \<Rightarrow> bool" where
  "tidy_tail [] = True"
| "tidy_tail (c # cs) =
     (if is_space c then c = 32 \<and> cs \<noteq> [] \<and> \<not> is_space (hd cs) \<and> tidy_tail cs
      else tidy_tail cs)"

definition tidy :: "js_string \<Rightarrow> bool" where
  "tidy s = (s = [] \<or> (\<not> is_space (hd s) \<and> tidy_tail s))"

definition suffix_words :: "js_string set" where
  "suffix_words = js_str ` set suffixAlternatives"

definition replace_word :: "js_string \<Rightarrow> js_string" where
  "replace_word w = (if map ascii_lower w \<in> suffix_words then abbreviate w else w)"

definition lower_letters :: "js_string \<Rightarrow> bool" where
  "lower_letters a = list_all (\<lambda>c. 97 \<le> c \<and> c \<le> 122) a"

section \<open>The state of a run\<close>

text \<open>
  Besides its arguments, a method of an evaluator can read the engine's generator behind
  \<^verbatim>\<open>Math.random\<close>, the clock, the cache shared by all services and the \<^verbatim>\<open>rateLimit\<close> map of
  its service instance. These form the state in which a run starts. A method is a function
  of its arguments and of that state, and returns its result together with the state it
  leaves.
\<close>

record runtime =
  random_values :: "nat \<Rightarrow> rat"
  random_calls :: nat
  clock :: int
  sharedCache :: "(string, js) CacheManager"
  rateLimit :: "(string, int) js_map"

text \<open>
  \<^verbatim>\<open>Math.random()\<close>: the next value of the engine's generator, a double at least 0 and below 1.
  \<open>random_values\<close> lists what the generator returns call by call, \<open>random_calls\<close> counts the
  calls made.
\<close>

definition Math_random :: "runtime \<Rightarrow> rat \<times> runtime" where
  "Math_random rt =
     (random_values rt (random_calls rt), rt\<lparr>random_calls := Suc (random_calls rt)\<rparr>)"

section \<open>The New Markets Tax Credit evaluator (src/services/api/NMTCService.js)\<close>

text \<open>
  \<^verbatim>\<open>seededRandom(seed)\<close> hashes the seed string into a 32-bit integer and returns a closure
  over the variable \<^verbatim>\<open>hash\<close>; each call of the closure updates \<^verbatim>\<open>hash\<close> and returns
  \<^verbatim>\<open>hash / 233280\<close>. The closure's variable is created by the call of \<^verbatim>\<open>seededRandom\<close>, so
  it is threaded through the calls below and is no part of the state of the run.
\<close>

definition ToInt32 :: "int \<Rightarrow> int" where
  "ToInt32 x = sint (word_of_int x :: 32 word)"

text \<open>
  \<^verbatim>\<open>hash = ((hash << 5) - hash) + char; hash = hash & hash\<close>. The operands are integers below
  \<open>2 ^ 33\<close> in magnitude, so the subtraction and the addition are exact.
\<close>

definition hash_step :: "int \<Rightarrow> code_unit \<Rightarrow> int" where
  "hash_step hash char = ToInt32 (ToInt32 (ToInt32 hash * 2 ^ 5) - hash + int char)"

definition seed_hash :: "js_string \<Rightarrow> int" where
  "seed_hash seed = foldl hash_step 0 seed"

text \<open>\<^verbatim>\<open>a % b\<close> on integers: the remainder has the sign of the dividend.\<close>

definition js_rem :: "int \<Rightarrow> int \<Rightarrow> int" where
  "js_rem a b = sgn a * (\<bar>a\<bar> mod \<bar>b\<bar>)"

text \<open>
  One call of the closure: the new value of \<^verbatim>\<open>hash\<close>, and the number returned for it. The
  value of \<^verbatim>\<open>hash * 9301 + 49297\<close> is an integer below \<open>2 ^ 53\<close> in magnitude, so it and its
  remainder are exact; the quotient \<^verbatim>\<open>hash / 233280\<close> is rounded.
\<close>

definition random_step :: "int \<Rightarrow> int" where
  "random_step hash = js_rem (hash * 9301 + 49297) 233280"

definition random_value :: "int \<Rightarrow> rat" where
  "random_value hash = fl (of_int hash / 233280)"

text \<open>
  The demographics are finite doubles (every intermediate magnitude is below \<open>10 ^ 6\<close>),
  written as the rationals they denote; the two \<^verbatim>\<open>Math.floor\<close> results are integers.
\<close>

record demographics =
  povertyRate :: rat
  medianIncomeRatio :: rat
  inEmpowermentZone :: bool
  population :: int
  medianIncome :: int

text \<open>
  \<^verbatim>\<open>simulateCensusDemographics(geoid)\<close>. The geoid is a string, or \<open>None\<close> when the tract
  record has none, and then \<^verbatim>\<open>seed.length\<close> throws a \<^verbatim>\<open>TypeError\<close>. The properties of the
  object literal are evaluated in the order written, one call of \<^verbatim>\<open>random()\<close> each, and each
  product and each sum is rounded. The method reads and writes nothing of the state of the
  run.
\<close>

definition simulateCensusDemographics ::
  "js_string option \<Rightarrow> runtime \<Rightarrow> (js_error + demographics) \<times> runtime" where
  "simulateCensusDemographics geoid_arg rt =
     (case geoid_arg of
        None \<Rightarrow> (Inl \<lparr>error_class = TypeError,
                      message = ''Cannot read properties of undefined (reading 'length')''\<rparr>, rt)
      | Some seed \<Rightarrow>
          let h0 = seed_hash seed;
              h1 = random_step h0;
              h2 = random_step h1;
              h3 = random_step h2;
              h4 = random_step h3;
              h5 = random_step h4
          in (Inr \<lparr>povertyRate = fl (5 + fl (random_value h1 * 35)),
                   medianIncomeRatio = fl (fl (4 / 10) + fl (random_value h2 * fl (6 / 10))),
                   inEmpowermentZone = (random_value h3 < fl (1 / 10)),
                   population = \<lfloor>fl (1000 + fl (random_value h4 * 9000))\<rfloor>,
                   medianIncome = \<lfloor>fl (25000 + fl (random_value h5 * 75000))\<rfloor>\<rparr>, rt))"

record censusData =
  tract :: js
  county :: js
  state :: js
  geoid :: "js_string option"

record qualifications =
  poverty :: bool
  income :: bool
  designation :: bool

record criteria =
  criteria_povertyRate :: rat
  criteria_medianIncomeRatio :: rat
  criteria_inEmpowermentZone :: bool
  qualifications :: qualifications

text \<open>
  The result of \<^verbatim>\<open>checkLowIncomeEligibility\<close>: \<open>lic_eligible\<close> is its \<^verbatim>\<open>eligible\<close>,
  \<open>lic_criteria\<close> its \<^verbatim>\<open>criteria\<close> (\<open>None\<close> for \<^verbatim>\<open>null\<close>). The \<^verbatim>\<open>reason\<close> text, which formats
  the numbers of the criteria, is left out.
\<close>

record lic_eligibility =
  lic_eligible :: bool
  lic_criteria :: "criteria option"

definition checkLowIncomeEligibility ::
  "censusData \<Rightarrow> runtime \<Rightarrow> lic_eligibility \<times> runtime" where
  "checkLowIncomeEligibility cd rt =
     (case simulateCensusDemographics (geoid cd) rt of
        (Inl err, rt') \<Rightarrow> (\<lparr>lic_eligible = False, lic_criteria = None\<rparr>, rt')
      | (Inr d, rt') \<Rightarrow>
          let qualifiesByPoverty = (povertyRate d \<ge> 20);
              qualifiesByIncome = (medianIncomeRatio d \<le> fl (8 / 10));
              qualifiesByDesignation = inEmpowermentZone d;
              isEligible = (qualifiesByPoverty \<or> qualifiesByIncome \<or> qualifiesByDesignation)
          in (\<lparr>lic_eligible = isEligible,
               lic_criteria =
                 Some \<lparr>criteria_povertyRate = povertyRate d,
                       criteria_medianIncomeRatio = medianIncomeRatio d,
                       criteria_inEmpowermentZone = inEmpowermentZone d,
                       qualifications = \<lparr>poverty = qualifiesByPoverty,
                                         income = qualifiesByIncome,
                                         designation = qualifiesByDesignation\<rparr>\<rparr>\<rparr>, rt'))"

text \<open>
  What a run of \<^verbatim>\<open>checkNMTCEligibility\<close> finds outside its argument: the collaborators that
  talk to the network, \<^verbatim>\<open>geocodeAddress\<close> and \<^verbatim>\<open>getCensusTract\<close> of \<^verbatim>\<open>BaseAPIService\<close>, which
  answer \<^verbatim>\<open>null\<close>, here \<open>None\<close>, when the lookup fails; and the state of the run, \<open>engine\<close>.
\<close>

record coordinates =
  lat :: rat
  lon :: rat
  display_name :: js

record network =
  geocodeAddress :: "js_string \<Rightarrow> coordinates option"
  getCensusTract :: "rat \<Rightarrow> rat \<Rightarrow> censusData option"
  engine :: runtime

text \<open>
  What \<^verbatim>\<open>checkNMTCEligibility\<close> resolves to. The constant tables \<^verbatim>\<open>benefits\<close> (present exactly
  when eligible) and \<^verbatim>\<open>nearbyOpportunities\<close> are left out.
\<close>

record nmtc_result =
  nmtc_address :: js_string
  nmtc_coordinates :: coordinates
  nmtc_censusData :: censusData
  nmtcEligible :: bool
  qualificationCriteria :: "criteria option"

definition checkNMTCEligibility :: "network \<Rightarrow> js \<Rightarrow> js_error + nmtc_result" where
  "checkNMTCEligibility net addr =
     (case service_validateAddress addr of
        Inl err \<Rightarrow> Inl err
      | Inr normalizedAddress \<Rightarrow>
          (case geocodeAddress net normalizedAddress of
             None \<Rightarrow> Inl \<lparr>error_class = PlainError, message = ''Unable to geocode address''\<rparr>
           | Some coords \<Rightarrow>
               (case getCensusTract net (lat coords) (lon coords) of
                  None \<Rightarrow> Inl \<lparr>error_class = PlainError,
                               message = ''Unable to determine census tract''\<rparr>
                | Some cd \<Rightarrow>
                    let eligibilityData = fst (checkLowIncomeEligibility cd (engine net))
                    in Inr \<lparr>nmtc_address = normalizedAddress,
                            nmtc_coordinates = coords,
                            nmtc_censusData = cd,
                            nmtcEligible = lic_eligible eligibilityData,
                            qualificationCriteria = lic_criteria eligibilityData\<rparr>)))"

text \<open>
  Two states of a run that differ in every component: the generator's values, the number of
  calls made, the clock, the shared cache and the rate limit map.
\<close>

definition demo_runtime :: runtime where
  "demo_runtime =
     \<lparr>random_values = (\<lambda>n. 1 / 2), random_calls = 0, clock = 1700000000000,
      sharedCache = \<lparr>cache = [], defaultTTL = 300000, maxSize = 1000\<rparr>,
      rateLimit = []\<rparr>"

definition other_runtime :: runtime where
  "other_runtime =
     \<lparr>random_values = (\<lambda>n. 7 / 8), random_calls = 3, clock = 1700000360000,
      sharedCache =
        \<lparr>cache = [(''k'', \<lparr>item_value = Some (JBool True), expiresAt = Ms 1700000659000,
                          createdAt = 1700000359000\<rparr>)],
         defaultTTL = 300000, maxSize = 1000\<rparr>,
      rateLimit = [(''https://www.cdfifund.gov'', 1700000359000)]\<rparr>"

text \<open>
  Two networks in which every lookup succeeds. They answer with different coordinates and
  with tract records that differ in the county and have the same geoid, and their runs
  start in the two states above.
\<close>

definition demo_census :: censusData where
  "demo_census = \<lparr>tract = JStr (js_str ''127181''), county = JStr (js_str ''001''),
                  state = JStr (js_str ''01''), geoid = Some (js_str ''01001127181'')\<rparr>"

definition demo_network :: network where
  "demo_network =
     \<lparr>geocodeAddress = (\<lambda>a. Some \<lparr>lat = 38.8977, lon = -77.0365, display_name = JStr a\<rparr>),
      getCensusTract = (\<lambda>la lo. Some demo_census),
      engine = demo_runtime\<rparr>"

definition other_network :: network where
  "other_network =
     \<lparr>geocodeAddress = (\<lambda>a. Some \<lparr>lat = 38.9, lon = -77, display_name = JNull\<rparr>),
      getCensusTract = (\<lambda>la lo. Some (demo_census\<lparr>county := JStr (js_str ''Washington'')\<rparr>)),
      engine = other_runtime\<rparr>"

section \<open>A method that reads the generator (src/services/api/HistoricTaxCreditsService.js)\<close>

text \<open>
  \<^verbatim>\<open>checkHistoricDistrict(coordinates)\<close> of the Historic Tax Credits evaluator draws one value
  from \<^verbatim>\<open>Math.random()\<close> and compares it with \<^verbatim>\<open>0.85\<close>.
\<close>

definition checkHistoricDistrict :: "coordinates \<Rightarrow> runtime \<Rightarrow> bool \<times> runtime" where
  "checkHistoricDistrict coords rt =
     (case Math_random rt of (districtProbability, rt') \<Rightarrow> (fl (85 / 100) < districtProbability, rt'))"

section \<open>Properties of the cache\<close>

subsection \<open>The underlying map\<close>


lemma map_get_map_delete: "map_get (map_delete m k) k = None"
  by (induction m) auto

lemma map_get_None_iff: "map_get m k = None \<longleftrightarrow> k \<notin> set (map_keys m)"
  by (induction m) (auto simp: map_keys_def split: if_splits)

lemma map_set_fresh: "map_get m k = None \<Longrightarrow> map_set m k v = m @ [(k, v)]"
  by (induction m) (auto split: if_splits)

lemma map_set_after_delete: "map_set (map_delete m k) k v = map_delete m k @ [(k, v)]"
  by (simp add: map_set_fresh map_get_map_delete)


lemma map_delete_absent: "map_get m k = None \<Longrightarrow> map_delete m k = m"
  by (induction m) (auto split: if_splits)

lemma map_delete_head:
  "distinct (map_keys ((k, v) # m)) \<Longrightarrow> map_delete ((k, v) # m) k = m"
  by (simp add: map_keys_def map_delete_absent map_get_None_iff)

lemma map_keys_map_set_present:
  "map_get m k \<noteq> None \<Longrightarrow> map_keys (map_set m k v) = map_keys m"
  by (induction m) (auto simp: map_keys_def)

subsection \<open>set and get\<close>




lemma cache_get_hit:
  "map_get (cache c) k = Some item \<Longrightarrow> \<not> ms_gt now (expiresAt item) \<Longrightarrow>
     cache_get c now k = (item_value item, c\<lparr>cache := map_delete (cache c) k @ [(k, item)]\<rparr>)"
  by (simp add: cache_get_def map_set_after_delete)

lemma cache_get_absent: "map_get (cache c) k = None \<Longrightarrow> cache_get c now k = (None, c)"
  by (simp add: cache_get_def)





subsection \<open>Eviction and recency order\<close>

lemma evict_if_full_below: "length (cache c) < maxSize c \<Longrightarrow> evict_if_full c = c"
  by (simp add: evict_if_full_def)

lemma evict_if_full_at_capacity:
  "maxSize c \<le> length (cache c) \<Longrightarrow> cache c = e # rest \<Longrightarrow> distinct (map_keys (cache c)) \<Longrightarrow>
     evict_if_full c = c\<lparr>cache := rest\<rparr>"
  by (cases e) (simp add: evict_if_full_def map_keys_def map_delete_absent map_get_None_iff)

lemma cache_set_fields [simp]:
  "maxSize (cache_set c now k v ttl) = maxSize c" "defaultTTL (cache_set c now k v ttl) = defaultTTL c"
  by (simp_all add: cache_set_def evict_if_full_def Let_def split: list.splits)

lemma set_all_fields [simp]:
  "maxSize (set_all c now kvs) = maxSize c" "defaultTTL (set_all c now kvs) = defaultTTL c"
  by (induction c now kvs rule: set_all.induct) simp_all

lemma cache_set_new_key_is_last:
  "map_get (cache (evict_if_full c)) k = None \<Longrightarrow>
     cache (cache_set c now k v ttl) =
       cache (evict_if_full c) @
         [(k, \<lparr>item_value = v,
               expiresAt = ms_add now (case ttl of None \<Rightarrow> Ms (defaultTTL c) | Some t \<Rightarrow> t),
               createdAt = now\<rparr>)]"
  by (simp add: cache_set_def Let_def map_set_fresh)


lemma set_all_append: "set_all c now (xs @ ys) = set_all (set_all c now xs) now ys"
  by (induction c now xs rule: set_all.induct) simp_all

lemma set_all_below_capacity:
  "distinct (map_keys (cache c) @ map fst kvs) \<Longrightarrow> length (cache c) + length kvs \<le> maxSize c \<Longrightarrow>
     cache (set_all c now kvs) = cache c @ map (\<lambda>(k, v). (k, default_item c now v)) kvs"
proof (induction c now kvs rule: set_all.induct)
  case (1 c now)
  then show ?case by simp
next
  case (2 c now k v kvs)
  let ?c' = "cache_set c now k v None"
  have below: "length (cache c) < maxSize c" using 2(3) by simp
  have fresh: "map_get (cache c) k = None" using 2(2) by (simp add: map_get_None_iff)
  have c': "cache ?c' = cache c @ [(k, default_item c now v)]"
    using below fresh by (simp add: cache_set_new_key_is_last evict_if_full_below default_item_def)
  have "cache (set_all ?c' now kvs) = cache ?c' @ map (\<lambda>(k, v). (k, default_item ?c' now v)) kvs"
    using 2(2,3) by (intro 2(1)) (auto simp: c' map_keys_def)
  then show ?case by (simp add: c' default_item_def)
qed

lemma capacity_plus_one_evicts_oldest:
  assumes "distinct (map fst kvs)" "length kvs = maxSize c" "0 < maxSize c" "cache c = []"
    and "k \<notin> set (map fst kvs)"
  shows "map_keys (cache (set_all c now (kvs @ [(k, v)]))) = tl (map fst kvs) @ [k]"
proof -
  let ?c1 = "set_all c now kvs"
  have c1: "cache ?c1 = map (\<lambda>(k, v). (k, default_item c now v)) kvs"
    using assms set_all_below_capacity [of c kvs now] by (simp add: map_keys_def)
  have keys1: "map_keys (cache ?c1) = map fst kvs"
    by (simp add: c1 map_keys_def comp_def case_prod_beta)
  obtain e rest where er: "cache ?c1 = e # rest"
    using assms c1 by (cases kvs) auto
  have ev: "evict_if_full ?c1 = ?c1\<lparr>cache := rest\<rparr>"
    using assms er keys1 c1 by (intro evict_if_full_at_capacity) auto
  have "map fst kvs = fst e # map fst rest"
    using keys1 er by (simp add: map_keys_def)
  then have rest: "map_keys rest = tl (map fst kvs)"
    by (simp add: map_keys_def)
  have "k \<notin> set (map_keys rest)"
    using rest assms(5) by (metis list.sel(2) list.set_sel(2))
  then have "map_get (cache (evict_if_full ?c1)) k = None"
    by (simp add: ev map_get_None_iff)
  then have "map_keys (cache (cache_set ?c1 now k v None)) = map_keys rest @ [k]"
    by (simp add: cache_set_new_key_is_last ev map_keys_def)
  then show ?thesis by (simp add: set_all_append rest)
qed

text \<open>
  Claim C3 at the input where the code departs from it. On a fresh cache (capacity 1000),
  \<^verbatim>\<open>set('a', 1); set('b', 2); set('a', 3)\<close> leaves the key order \<open>a, b\<close>: the second
  \<^verbatim>\<open>set('a', ...)\<close> replaces the value in place (\<^verbatim>\<open>Map.set\<close> on a present key keeps its
  position), so the key written last stays at the least-recently-used end and is the next
  one evicted. \<^verbatim>\<open>get\<close> moves a key to the end by deleting it before \<^verbatim>\<open>Map.set\<close>;
  \<^verbatim>\<open>set\<close> does not.
\<close>

theorem set_existing_key_keeps_position:
  "map_keys (cache (set_all (new_CacheManager :: (string, nat) CacheManager) 0
      [(''a'', Some 1), (''b'', Some 2), (''a'', Some 3)])) = [''a'', ''b'']"
  by (simp add: cache_set_def new_CacheManager_def evict_if_full_def Let_def map_keys_def)




section \<open>Properties of the orchestrator\<close>

lemma analyzeProperty_returns_iff:
  "(\<exists>an. analyzeProperty svc addr pd = Inr an) \<longleftrightarrow> (\<exists>s. addr = JStr s \<and> s \<noteq> []) \<and> pd \<noteq> JNull"
  by (cases addr) (auto simp: analyzeProperty_def Let_def)






subsection \<open>Recommendations\<close>

lemma sort_insert_insort_key:
  "sort_insert (\<lambda>a b. f b - f a) x ys = insort_key (\<lambda>x. - f x) x ys"
  by (induction ys) auto

lemma array_sort_sort_key: "array_sort (\<lambda>a b. f b - f a) xs = sort_key (\<lambda>x. - f x) xs"
  by (induction xs) (auto simp: array_sort_def sort_insert_insort_key sort_key_def)

lemma array_sort_sorted_id:
  "sorted_wrt (\<lambda>a b. cmp a b \<le> 0) xs \<Longrightarrow> array_sort cmp xs = xs"
proof (induction xs)
  case Nil
  then show ?case by (simp add: array_sort_def)
next
  case (Cons x xs)
  then have "array_sort cmp xs = xs" by simp
  then have "array_sort cmp (x # xs) = sort_insert cmp x xs"
    by (simp add: array_sort_def)
  also have "\<dots> = x # xs"
    using Cons.prems by (cases xs) auto
  finally show ?case .
qed

lemma pushed_sorted: "sorted_wrt (\<lambda>a b. byPriority a b \<le> 0) (pushedRecommendations inc)"
  by (simp add: pushedRecommendations_def Let_def byPriority_def)

lemma generateRecommendations_pushed: "generateRecommendations inc pd = pushedRecommendations inc"
  by (simp add: generateRecommendations_def array_sort_sorted_id pushed_sorted)

lemma byPriority_key: "byPriority = (\<lambda>a b. priorityOrder (priority b) - priorityOrder (priority a))"
  by (simp add: byPriority_def fun_eq_iff)

lemma generateRecommendations_sort_key:
  "generateRecommendations inc pd =
     sort_key (\<lambda>r. - priorityOrder (priority r)) (pushedRecommendations inc)"
  by (simp add: generateRecommendations_def byPriority_key array_sort_sort_key)

lemma priorityOrder_inj: "priorityOrder p = priorityOrder q \<longleftrightarrow> p = q"
  by (cases p; cases q) simp_all

lemma recs_sorted:
  "sorted_wrt (\<lambda>a b. priorityOrder (priority a) \<ge> priorityOrder (priority b))
     (generateRecommendations inc pd)"
proof -
  have "sorted (map (\<lambda>r. - priorityOrder (priority r)) (generateRecommendations inc pd))"
    by (simp only: generateRecommendations_sort_key sorted_sort_key)
  then show ?thesis
    by (simp add: sorted_map)
qed

lemma recs_stable:
  "filter (\<lambda>r. priority r = p) (generateRecommendations inc pd)
     = filter (\<lambda>r. priority r = p) (pushedRecommendations inc)"
proof -
  have "filter (\<lambda>r. - priorityOrder (priority r) = - priorityOrder p) (generateRecommendations inc pd)
      = filter (\<lambda>r. - priorityOrder (priority r) = - priorityOrder p) (pushedRecommendations inc)"
    by (simp only: generateRecommendations_sort_key sort_key_stable)
  then show ?thesis by (simp add: priorityOrder_inj)
qed

lemma recs_programs:
  "\<exists>k \<in> set (map fst recommendedPrograms). k \<in> set (availableIncentives inc) \<Longrightarrow>
   map program (pushedRecommendations inc)
     = map snd (filter (\<lambda>(k, n). k \<in> set (availableIncentives inc)) recommendedPrograms)"
  by (auto simp: pushedRecommendations_def Let_def recommendedPrograms_def)

lemma recs_fallback:
  "\<forall>k \<in> set (map fst recommendedPrograms). k \<notin> set (availableIncentives inc) \<Longrightarrow>
   map program (pushedRecommendations inc) = [''Alternative Financing'']"
  by (simp add: pushedRecommendations_def Let_def recommendedPrograms_def)

lemma recs_priority:
  "r \<in> set (pushedRecommendations inc) \<Longrightarrow> program r \<noteq> ''Alternative Financing'' \<Longrightarrow>
     map_of specifiedPriority (program r) = Some (priority r)"
  by (auto simp: pushedRecommendations_def Let_def specifiedPriority_def split: if_splits)


text \<open>
  Claim C4. For every \<^verbatim>\<open>incentives\<close> mapping: when one of the five programs is available,
  \<^verbatim>\<open>generateRecommendations\<close> returns one recommendation per available program; each carries
  the priority fixed for its program (Opportunity Zones and Historic Tax Credits High, New
  Markets Tax Credits and SBA 504 Loans Medium, C-PACE Financing Low); the list is sorted by
  priority weight, descending (High 3, Medium 2, Low 1), and recommendations of equal
  priority keep the order in which they were pushed; when none of the five programs is
  available the list is exactly the one fallback recommendation, Alternative Financing;
  and when exactly C-PACE, SBA 504 and Opportunity Zones are available the list is
  Opportunity Zones, SBA 504 Loans, C-PACE Financing.
\<close>

theorem recommendations_fixed_priority_sorted:
  "((\<exists>k \<in> set (map fst recommendedPrograms). k \<in> set (availableIncentives inc)) \<longrightarrow>
      map program (generateRecommendations inc pd)
        = map snd (filter (\<lambda>(k, n). k \<in> set (availableIncentives inc)) recommendedPrograms))
   \<and> (\<forall>r \<in> set (generateRecommendations inc pd).
         program r \<noteq> ''Alternative Financing'' \<longrightarrow>
         map_of specifiedPriority (program r) = Some (priority r))
   \<and> sorted_wrt (\<lambda>a b. priorityOrder (priority a) \<ge> priorityOrder (priority b))
         (generateRecommendations inc pd)
   \<and> (\<forall>p. filter (\<lambda>r. priority r = p) (generateRecommendations inc pd)
            = filter (\<lambda>r. priority r = p) (pushedRecommendations inc))
   \<and> ((\<forall>k \<in> set (map fst recommendedPrograms). k \<notin> set (availableIncentives inc)) \<longrightarrow>
         length (generateRecommendations inc pd) = 1
         \<and> map program (generateRecommendations inc pd) = [''Alternative Financing''])
   \<and> (''opportunityZones'' \<in> set (availableIncentives inc)
        \<and> ''sba504'' \<in> set (availableIncentives inc)
        \<and> ''cpace'' \<in> set (availableIncentives inc)
        \<and> ''historicTaxCredits'' \<notin> set (availableIncentives inc)
        \<and> ''newMarketsTC'' \<notin> set (availableIncentives inc) \<longrightarrow>
         map program (generateRecommendations inc pd)
           = [''Opportunity Zones'', ''SBA 504 Loans'', ''C-PACE Financing'']
         \<and> map priority (generateRecommendations inc pd) = [High, Medium, Low])"
proof (intro conjI)
  show "(\<exists>k \<in> set (map fst recommendedPrograms). k \<in> set (availableIncentives inc)) \<longrightarrow>
      map program (generateRecommendations inc pd)
        = map snd (filter (\<lambda>(k, n). k \<in> set (availableIncentives inc)) recommendedPrograms)"
    using recs_programs by (simp only: generateRecommendations_pushed) blast
next
  show "\<forall>r \<in> set (generateRecommendations inc pd).
         program r \<noteq> ''Alternative Financing'' \<longrightarrow>
         map_of specifiedPriority (program r) = Some (priority r)"
    using recs_priority by (simp only: generateRecommendations_pushed) blast
next
  show "sorted_wrt (\<lambda>a b. priorityOrder (priority a) \<ge> priorityOrder (priority b))
         (generateRecommendations inc pd)"
    by (rule recs_sorted)
next
  show "\<forall>p. filter (\<lambda>r. priority r = p) (generateRecommendations inc pd)
            = filter (\<lambda>r. priority r = p) (pushedRecommendations inc)"
    by (simp add: recs_stable)
next
  show "(\<forall>k \<in> set (map fst recommendedPrograms). k \<notin> set (availableIncentives inc)) \<longrightarrow>
         length (generateRecommendations inc pd) = 1
         \<and> map program (generateRecommendations inc pd) = [''Alternative Financing'']"
  proof
    assume "\<forall>k \<in> set (map fst recommendedPrograms). k \<notin> set (availableIncentives inc)"
    then have eq: "map program (generateRecommendations inc pd) = [''Alternative Financing'']"
      using recs_fallback by (simp only: generateRecommendations_pushed)
    have "length (generateRecommendations inc pd)
            = length (map program (generateRecommendations inc pd))"
      by simp
    also have "\<dots> = 1"
      by (simp only: eq) simp
    finally have "length (generateRecommendations inc pd) = 1" .
    with eq show "length (generateRecommendations inc pd) = 1
         \<and> map program (generateRecommendations inc pd) = [''Alternative Financing'']"
      by simp
  qed
next
  show "''opportunityZones'' \<in> set (availableIncentives inc)
        \<and> ''sba504'' \<in> set (availableIncentives inc)
        \<and> ''cpace'' \<in> set (availableIncentives inc)
        \<and> ''historicTaxCredits'' \<notin> set (availableIncentives inc)
        \<and> ''newMarketsTC'' \<notin> set (availableIncentives inc) \<longrightarrow>
         map program (generateRecommendations inc pd)
           = [''Opportunity Zones'', ''SBA 504 Loans'', ''C-PACE Financing'']
         \<and> map priority (generateRecommendations inc pd) = [High, Medium, Low]"
    by (simp add: generateRecommendations_pushed pushedRecommendations_def Let_def)
qed

text \<open>
  The theorem at two inputs: the incentives of the run above (Historic Tax Credits, C-PACE
  and SBA 504 available) and an empty mapping.
\<close>

lemma demo_available: "availableIncentives demo_incentives = [''historicTaxCredits'', ''cpace'', ''sba504'']"
  by (simp add: availableIncentives_def demo_incentives_def)

lemma absent_available: "availableIncentives [] = []"
  by (simp add: availableIncentives_def)

theorem recommendations_fixed_priority_sorted_witness:
  "''historicTaxCredits'' \<in> set (map fst recommendedPrograms)
   \<and> ''historicTaxCredits'' \<in> set (availableIncentives demo_incentives)
   \<and> map program (generateRecommendations demo_incentives JUndefined)
       = [''Historic Tax Credits'', ''SBA 504 Loans'', ''C-PACE Financing'']
   \<and> map priority (generateRecommendations demo_incentives JUndefined) = [High, Medium, Low]
   \<and> set (availableIncentives []) = {}
   \<and> map program (generateRecommendations [] JUndefined) = [''Alternative Financing'']"
  using recommendations_fixed_priority_sorted [of demo_incentives JUndefined]
        recommendations_fixed_priority_sorted [of "[]" JUndefined]
  by (simp add: demo_available absent_available recommendedPrograms_def specifiedPriority_def
        generateRecommendations_pushed pushedRecommendations_def Let_def)

section \<open>Properties of the financial projections\<close>

subsection \<open>The growth factor of the base case\<close>

text \<open>
  \<^verbatim>\<open>calculateBaseCase\<close> raises \<open>1 + 0.07 / 12\<close> to the power 240. Its value is enclosed by
  squaring an enclosure of the fifteenth power four times, which is enough to evaluate
  \<^verbatim>\<open>totalCost\<close> at a given project cost.
\<close>

lemma square_bounds:
  fixes y :: rat
  assumes "0 \<le> a" "a \<le> y" "y \<le> b" "a' \<le> a * a" "b * b \<le> b'"
  shows "a' \<le> y * y \<and> y * y \<le> b'"
proof -
  have "a * a \<le> y * y" using assms by (intro mult_mono) auto
  moreover have "y * y \<le> b * b" using assms by (intro mult_mono) auto
  ultimately show ?thesis using assms by linarith
qed

lemma growth_15: "1.091164833061 \<le> ((1207::rat) / 1200) ^ 15 \<and> ((1207::rat) / 1200) ^ 15 \<le> 1.091164833062"
  by (simp add: power_divide)

lemma growth_30: "1.190640692909 \<le> ((1207::rat) / 1200) ^ 30 \<and> ((1207::rat) / 1200) ^ 30 \<le> 1.190640692912"
proof -
  have "((1207::rat) / 1200) ^ 30 = (1207 / 1200) ^ 15 * (1207 / 1200) ^ 15"
    by (simp add: power_add [symmetric])
  moreover have "1.190640692909 \<le> ((1207::rat) / 1200) ^ 15 * (1207 / 1200) ^ 15
      \<and> ((1207::rat) / 1200) ^ 15 * (1207 / 1200) ^ 15 \<le> 1.190640692912"
    using growth_15 by (intro square_bounds [where a = "1.091164833061" and b = "1.091164833062"]) simp_all
  ultimately show ?thesis by simp
qed

lemma growth_60: "1.417625259610 \<le> ((1207::rat) / 1200) ^ 60 \<and> ((1207::rat) / 1200) ^ 60 \<le> 1.417625259618"
proof -
  have "((1207::rat) / 1200) ^ 60 = (1207 / 1200) ^ 30 * (1207 / 1200) ^ 30"
    by (simp add: power_add [symmetric])
  moreover have "1.417625259610 \<le> ((1207::rat) / 1200) ^ 30 * (1207 / 1200) ^ 30
      \<and> ((1207::rat) / 1200) ^ 30 * (1207 / 1200) ^ 30 \<le> 1.417625259618"
    using growth_30 by (intro square_bounds [where a = "1.190640692909" and b = "1.190640692912"]) simp_all
  ultimately show ?thesis by simp
qed

lemma growth_120: "2.009661376684 \<le> ((1207::rat) / 1200) ^ 120 \<and> ((1207::rat) / 1200) ^ 120 \<le> 2.009661376708"
proof -
  have "((1207::rat) / 1200) ^ 120 = (1207 / 1200) ^ 60 * (1207 / 1200) ^ 60"
    by (simp add: power_add [symmetric])
  moreover have "2.009661376684 \<le> ((1207::rat) / 1200) ^ 60 * (1207 / 1200) ^ 60
      \<and> ((1207::rat) / 1200) ^ 60 * (1207 / 1200) ^ 60 \<le> 2.009661376708"
    using growth_60 by (intro square_bounds [where a = "1.417625259610" and b = "1.417625259618"]) simp_all
  ultimately show ?thesis by simp
qed

lemma growth_240: "4.038738848935 \<le> ((1207::rat) / 1200) ^ 240 \<and> ((1207::rat) / 1200) ^ 240 \<le> 4.038738849032"
proof -
  have "((1207::rat) / 1200) ^ 240 = (1207 / 1200) ^ 120 * (1207 / 1200) ^ 120"
    by (simp add: power_add [symmetric])
  moreover have "4.038738848935 \<le> ((1207::rat) / 1200) ^ 120 * (1207 / 1200) ^ 120
      \<and> ((1207::rat) / 1200) ^ 120 * (1207 / 1200) ^ 120 \<le> 4.038738849032"
    using growth_120 by (intro square_bounds [where a = "2.009661376684" and b = "2.009661376708"]) simp_all
  ultimately show ?thesis by simp
qed


lemma growth_240_short:
  "4.038738848 \<le> ((1207::rat) / 1200) ^ 240 \<and> ((1207::rat) / 1200) ^ 240 \<le> 4.038738850"
proof -
  have "4.038738848935 \<le> P \<and> P \<le> 4.038738849032 \<Longrightarrow> 4.038738848 \<le> P \<and> P \<le> 4.038738850"
    for P :: rat
    by simp
  then show ?thesis using growth_240 by blast
qed

lemma totalCost_formula:
  "totalCost (calculateBaseCase c) =
     Math_round (c * 0.25 + c * 0.75 * (0.07 / 12 * (1207 / 1200) ^ 240)
                   / ((1207 / 1200) ^ 240 - 1) * 240)"
proof -
  have r: "1 + (0.07::rat) / 12 = 1207 / 1200" by simp
  have n: "(20::nat) * 12 = 240" "(of_nat 240 :: rat) = 240" by simp_all
  show ?thesis
    by (simp only: calculateBaseCase_def Let_def base_case.select_convs r n)
qed

lemma annuity_factor_bounds:
  fixes P :: rat
  assumes "4.038738848 \<le> P \<and> P \<le> 4.038738850"
  shows "1.64553808 \<le> 0.25 + 0.75 * (0.07 / 12 * P) / (P - 1) * 240
       \<and> 0.25 + 0.75 * (0.07 / 12 * P) / (P - 1) * 240 \<le> 1.64553809"
proof -
  have pos: "0 < P - 1" using assms by simp
  show ?thesis
    using pos assms by (simp add: field_simps)
qed

lemma totalCost_eq:
  assumes "0 \<le> c" "of_int N - 1 / 2 \<le> c * 1.64553808" "c * 1.64553809 < of_int N + 1 / 2"
  shows "totalCost (calculateBaseCase c) = N"
proof -
  define K :: rat where "K = 0.25 + 0.75 * (0.07 / 12 * (1207 / 1200) ^ 240) / ((1207 / 1200) ^ 240 - 1) * 240"
  have K: "1.64553808 \<le> K" "K \<le> 1.64553809"
    using annuity_factor_bounds [OF growth_240_short] by (simp_all only: K_def)
  have "c * 0.25 + c * 0.75 * (0.07 / 12 * (1207 / 1200) ^ 240) / ((1207 / 1200) ^ 240 - 1) * 240
          = c * K"
    by (simp add: K_def algebra_simps)
  then have tc: "totalCost (calculateBaseCase c) = Math_round (c * K)"
    by (simp only: totalCost_formula)
  have "c * 1.64553808 \<le> c * K"
    by (rule mult_left_mono [OF K(1) assms(1)])
  moreover have "c * K \<le> c * 1.64553809"
    by (rule mult_left_mono [OF K(2) assms(1)])
  ultimately have "of_int N - 1 / 2 \<le> c * K" "c * K < of_int N + 1 / 2"
    using assms by linarith+
  then show ?thesis
    unfolding tc Math_round_def by linarith
qed

lemma totalCost_default: "totalCost (calculateBaseCase 2000000) = 3291076"
  by (rule totalCost_eq) simp_all

lemma totalCost_boundary: "totalCost (calculateBaseCase (774548 / 5)) = 254910"
  by (rule totalCost_eq) simp_all

lemma totalCost_fractional: "totalCost (calculateBaseCase 333333) = 548512"
  by (rule totalCost_eq) simp_all

lemma totalCost_middle: "totalCost (calculateBaseCase 100000) = 164554"
  by (rule totalCost_eq) simp_all

lemma totalCost_small: "totalCost (calculateBaseCase 1000) = 1646"
  by (rule totalCost_eq) simp_all



subsection \<open>Comparison of the scenarios\<close>

lemma Math_round_near: "\<bar>of_int (Math_round x) - x\<bar> \<le> 1 / 2"
  unfolding Math_round_def by linarith

lemma Math_round_of_int: "Math_round (of_int k) = k"
  unfolding Math_round_def by linarith

lemma Math_round_Ints: "x \<in> \<int> \<Longrightarrow> of_int (Math_round x) = x"
  by (auto simp: Ints_def Math_round_of_int)

lemma Math_round_gt: "Math_round x > k \<Longrightarrow> x > of_int k"
  unfolding Math_round_def by linarith

lemma Math_round_lt: "Math_round x < k \<Longrightarrow> x < of_int k"
  unfolding Math_round_def by linarith

lemma compareScenarios_recommendation:
  "recommendation (compareScenarios b w) =
     (if of_int (totalCost b) - netProjectCost w > 100000 then ''Strongly Recommended''
      else if of_int (totalCost b) - netProjectCost w > 50000 then ''Recommended''
      else ''Consider Carefully'')"
  by (simp add: compareScenarios_def Let_def)

lemma compareScenarios_totalSavings:
  "totalSavings (compareScenarios b w) = Math_round (of_int (totalCost b) - netProjectCost w)"
  by (simp add: compareScenarios_def Let_def)

lemma projections_fields:
  "comparison (generateFinancialProjections an c) =
     compareScenarios (baseCase (generateFinancialProjections an c))
                      (withIncentives (generateFinancialProjections an c))"
  by (simp add: generateFinancialProjections_def Let_def)

text \<open>
  Claim C8, as the code has it. For every analysis and project cost, with
  \<open>savings = baseCase.totalCost - withIncentives.netProjectCost\<close>: \<^verbatim>\<open>totalSavings\<close> is
  \<^verbatim>\<open>Math.round(savings)\<close>, so it is within one half of \<open>savings\<close> and equal to it when
  \<open>savings\<close> is a whole number; the recommendation strength is a threshold function of the
  unrounded \<open>savings\<close> (Strongly Recommended above 100000, Recommended above 50000, Consider
  Carefully otherwise), which agrees with the same thresholds on \<^verbatim>\<open>totalSavings\<close> whenever
  \<^verbatim>\<open>totalSavings\<close> is neither 50000 nor 100000. An analysis with exactly Historic Tax
  Credits and SBA 504 available and project cost 2,000,000 has
  \<open>taxCredits = 0.20 * 2,000,000 = 400,000\<close>, from Historic Tax Credits alone; SBA 504
  contributes 50,000 of interest savings.
\<close>

theorem financial_comparison:
  "(let p = generateFinancialProjections an cost_arg;
        savings = of_int (totalCost (baseCase p)) - netProjectCost (withIncentives p)
    in totalSavings (comparison p) = Math_round savings
       \<and> \<bar>of_int (totalSavings (comparison p)) - savings\<bar> \<le> 1 / 2
       \<and> (savings \<in> \<int> \<longrightarrow> of_int (totalSavings (comparison p)) = savings)
       \<and> recommendation (comparison p) =
            (if savings > 100000 then ''Strongly Recommended''
             else if savings > 50000 then ''Recommended''
             else ''Consider Carefully'')
       \<and> (totalSavings (comparison p) > 100000 \<longrightarrow>
              recommendation (comparison p) = ''Strongly Recommended'')
       \<and> (50000 < totalSavings (comparison p) \<and> totalSavings (comparison p) < 100000 \<longrightarrow>
              recommendation (comparison p) = ''Recommended'')
       \<and> (totalSavings (comparison p) < 50000 \<longrightarrow>
              recommendation (comparison p) = ''Consider Carefully''))
   \<and> (\<forall>oz htc nmtc cp sba.
         incentives an = [(''opportunityZones'', oz), (''historicTaxCredits'', htc),
                          (''newMarketsTC'', nmtc), (''cpace'', cp), (''sba504'', sba)]
         \<and> truthy (available htc) \<and> truthy (available sba)
         \<and> \<not> truthy (available oz) \<and> \<not> truthy (available nmtc) \<and> \<not> truthy (available cp) \<longrightarrow>
         taxCredits (calculateWithIncentives 2000000 an) = 0.20 * 2000000
         \<and> taxCredits (calculateWithIncentives 2000000 an) = 400000
         \<and> interestSavings (calculateWithIncentives 2000000 an) = 50000
         \<and> netProjectCost (calculateWithIncentives 2000000 an) = 1600000)"
proof (intro conjI)
  define p where "p = generateFinancialProjections an cost_arg"
  define savings where "savings = of_int (totalCost (baseCase p)) - netProjectCost (withIncentives p)"
  have ts: "totalSavings (comparison p) = Math_round savings"
    by (simp add: p_def savings_def projections_fields compareScenarios_totalSavings)
  have rec: "recommendation (comparison p) =
            (if savings > 100000 then ''Strongly Recommended''
             else if savings > 50000 then ''Recommended''
             else ''Consider Carefully'')"
    by (simp add: p_def savings_def projections_fields compareScenarios_recommendation)
  have near: "\<bar>of_int (totalSavings (comparison p)) - savings\<bar> \<le> 1 / 2"
    by (simp only: ts Math_round_near)
  have ints: "savings \<in> \<int> \<longrightarrow> of_int (totalSavings (comparison p)) = savings"
    by (simp only: ts) (simp add: Math_round_Ints)
  have hi: "totalSavings (comparison p) > 100000 \<longrightarrow>
              recommendation (comparison p) = ''Strongly Recommended''"
    using Math_round_gt [of 100000 savings] by (auto simp: ts rec)
  have mid: "50000 < totalSavings (comparison p) \<and> totalSavings (comparison p) < 100000 \<longrightarrow>
              recommendation (comparison p) = ''Recommended''"
    using Math_round_gt [of 50000 savings] Math_round_lt [of savings 100000] by (auto simp: ts rec)
  have lo: "totalSavings (comparison p) < 50000 \<longrightarrow>
              recommendation (comparison p) = ''Consider Carefully''"
    using Math_round_lt [of savings 50000] by (auto simp: ts rec)
  show "let p = generateFinancialProjections an cost_arg;
        savings = of_int (totalCost (baseCase p)) - netProjectCost (withIncentives p)
    in totalSavings (comparison p) = Math_round savings
       \<and> \<bar>of_int (totalSavings (comparison p)) - savings\<bar> \<le> 1 / 2
       \<and> (savings \<in> \<int> \<longrightarrow> of_int (totalSavings (comparison p)) = savings)
       \<and> recommendation (comparison p) =
            (if savings > 100000 then ''Strongly Recommended''
             else if savings > 50000 then ''Recommended''
             else ''Consider Carefully'')
       \<and> (totalSavings (comparison p) > 100000 \<longrightarrow>
              recommendation (comparison p) = ''Strongly Recommended'')
       \<and> (50000 < totalSavings (comparison p) \<and> totalSavings (comparison p) < 100000 \<longrightarrow>
              recommendation (comparison p) = ''Recommended'')
       \<and> (totalSavings (comparison p) < 50000 \<longrightarrow>
              recommendation (comparison p) = ''Consider Carefully'')"
    unfolding Let_def p_def [symmetric] savings_def [symmetric]
    using ts near ints rec hi mid lo by blast
next
  show "\<forall>oz htc nmtc cp sba.
         incentives an = [(''opportunityZones'', oz), (''historicTaxCredits'', htc),
                          (''newMarketsTC'', nmtc), (''cpace'', cp), (''sba504'', sba)]
         \<and> truthy (available htc) \<and> truthy (available sba)
         \<and> \<not> truthy (available oz) \<and> \<not> truthy (available nmtc) \<and> \<not> truthy (available cp) \<longrightarrow>
         taxCredits (calculateWithIncentives 2000000 an) = 0.20 * 2000000
         \<and> taxCredits (calculateWithIncentives 2000000 an) = 400000
         \<and> interestSavings (calculateWithIncentives 2000000 an) = 50000
         \<and> netProjectCost (calculateWithIncentives 2000000 an) = 1600000"
    by (simp add: calculateWithIncentives_def incentiveStep_def Let_def)
qed


text \<open>
  The theorem at three inputs: the default cost of 2,000,000 with Historic Tax Credits and
  SBA 504 available, and costs of 100,000 and 1,000 with nothing available.
\<close>

lemma with_incentives_htc_sba:
  "calculateWithIncentives c htc_sba_analysis =
     \<lparr>incentiveProjectCost = c, taxCredits = c * 0.20, interestSavings = 50000,
      netProjectCost = c - c * 0.20\<rparr>"
  by (simp add: calculateWithIncentives_def incentiveStep_def htc_sba_analysis_def
        htc_sba_incentives_def)

lemma with_incentives_failed:
  "calculateWithIncentives c failed_analysis =
     \<lparr>incentiveProjectCost = c, taxCredits = 0, interestSavings = 0, netProjectCost = c\<rparr>"
  by (simp add: calculateWithIncentives_def incentiveStep_def failed_analysis_def
        failed_incentives_def)

lemma with_incentives_demo:
  "calculateWithIncentives c demo_analysis =
     \<lparr>incentiveProjectCost = c, taxCredits = c * 0.20, interestSavings = 75000,
      netProjectCost = c - c * 0.20\<rparr>"
  by (simp add: calculateWithIncentives_def incentiveStep_def demo_analysis_def
        demo_incentives_def)

lemma projections_unfold:
  "generateFinancialProjections an (Some c) =
     (if c \<noteq> 0
      then \<lparr>baseCase = calculateBaseCase c, withIncentives = calculateWithIncentives c an,
            comparison = compareScenarios (calculateBaseCase c) (calculateWithIncentives c an)\<rparr>
      else generateFinancialProjections an None)"
  "generateFinancialProjections an None =
     \<lparr>baseCase = calculateBaseCase 2000000, withIncentives = calculateWithIncentives 2000000 an,
      comparison = compareScenarios (calculateBaseCase 2000000)
                     (calculateWithIncentives 2000000 an)\<rparr>"
  by (simp_all add: generateFinancialProjections_def Let_def)

lemma Math_round_numeral [simp]: "Math_round (numeral k) = numeral k"
  using Math_round_of_int [of "numeral k"] by simp

theorem financial_comparison_witness:
  "taxCredits (withIncentives (generateFinancialProjections htc_sba_analysis None)) = 400000
   \<and> interestSavings (withIncentives (generateFinancialProjections htc_sba_analysis None)) = 50000
   \<and> totalSavings (comparison (generateFinancialProjections htc_sba_analysis None)) = 1691076
   \<and> recommendation (comparison (generateFinancialProjections htc_sba_analysis None))
        = ''Strongly Recommended''
   \<and> totalSavings (comparison (generateFinancialProjections failed_analysis (Some 100000))) = 64554
   \<and> recommendation (comparison (generateFinancialProjections failed_analysis (Some 100000)))
        = ''Recommended''
   \<and> totalSavings (comparison (generateFinancialProjections failed_analysis (Some 1000))) = 646
   \<and> recommendation (comparison (generateFinancialProjections failed_analysis (Some 1000)))
        = ''Consider Carefully''"
  using financial_comparison [of htc_sba_analysis None]
        financial_comparison [of failed_analysis "Some 100000"]
        financial_comparison [of failed_analysis "Some 1000"]
  by (simp add: projections_unfold with_incentives_htc_sba with_incentives_failed
        totalCost_default totalCost_middle totalCost_small Let_def
        htc_sba_analysis_def htc_sba_incentives_def)

lemma floor_examples:
  "\<lfloor>(2818461::rat) / 10\<rfloor> = 281846" "\<lfloor>(1000009::rat) / 10\<rfloor> = 100000"
  by linarith+

text \<open>
  Claim C8 as stated fails in both parts. With Historic Tax Credits available and a project
  cost of 333,333 the difference \<open>totalCost - netProjectCost\<close> is 281845.6 and
  \<^verbatim>\<open>totalSavings\<close> is 281846. With nothing available and a project cost of 154,909.6 the
  difference is 100000.4: \<^verbatim>\<open>totalSavings\<close> is 100000, not above 100000, and the
  recommendation is Strongly Recommended.
\<close>

theorem financial_comparison_rounding_counterexample:
  "totalSavings (comparison (generateFinancialProjections demo_analysis (Some 333333))) = 281846
   \<and> of_int (totalCost (baseCase (generateFinancialProjections demo_analysis (Some 333333))))
        - netProjectCost (withIncentives (generateFinancialProjections demo_analysis (Some 333333)))
       = 1409228 / 5
   \<and> of_int (totalSavings (comparison (generateFinancialProjections demo_analysis (Some 333333))))
       \<noteq> of_int (totalCost (baseCase (generateFinancialProjections demo_analysis (Some 333333))))
          - netProjectCost (withIncentives (generateFinancialProjections demo_analysis (Some 333333)))
   \<and> totalSavings (comparison (generateFinancialProjections failed_analysis (Some (774548 / 5))))
       = 100000
   \<and> recommendation (comparison (generateFinancialProjections failed_analysis (Some (774548 / 5))))
       = ''Strongly Recommended''"
  by (simp add: projections_unfold with_incentives_demo with_incentives_failed
        totalCost_fractional totalCost_boundary compareScenarios_def Let_def Math_round_def
        floor_examples)

section \<open>Properties of double-precision rounding\<close>

subsection \<open>Powers of two and the binary exponent\<close>

lemma pow2_powi: "pow2 e = 2 powi e"
  by (simp add: pow2_def power_int_def power_inverse inverse_eq_divide power_one_over)

lemma pow2_pos: "0 < pow2 e"
  by (simp add: pow2_powi)

lemma pow2_add: "pow2 (a + b) = pow2 a * pow2 b"
  by (simp add: pow2_powi power_int_add)

lemma pow2_mono: "a \<le> b \<Longrightarrow> pow2 a \<le> pow2 b"
  by (simp add: pow2_powi power_int_increasing)

lemma pow2_strict_mono: "a < b \<Longrightarrow> pow2 a < pow2 b"
  by (simp add: pow2_powi power_int_strict_increasing)

lemma pow2_nat: "pow2 (int n) = 2 ^ n"
  by (simp add: pow2_def)

lemma pow2_neg_nat: "pow2 (- int n) = 1 / 2 ^ n"
  by (simp add: pow2_powi power_int_minus inverse_eq_divide)

lemma binary_exponent_bounds:
  assumes "x \<noteq> 0"
  shows "pow2 (binary_exponent x) \<le> \<bar>x\<bar> \<and> \<bar>x\<bar> < pow2 (binary_exponent x + 1)"
proof (cases "1 \<le> \<bar>x\<bar>")
  case True
  define n where "n = \<lfloor>\<bar>x\<bar>\<rfloor>"
  define b where "b = bitlen n"
  have n1: "1 \<le> n" using True by (simp add: n_def le_floor_iff)
  then have n0: "0 < n" by simp
  have bb: "2 ^ nat (b - 1) \<le> n" "n < 2 ^ nat b"
    using bitlen_bounds [OF n0] by (simp_all add: b_def)
  have b1: "1 \<le> b"
    using n0 bitlen_eq_zero_iff [of n] bitlen_nonneg [of n] unfolding b_def by linarith
  have e: "binary_exponent x = b - 1"
    using True by (simp add: binary_exponent_def b_def n_def)
  have lo: "(2::rat) ^ nat (b - 1) \<le> of_int n"
    using bb(1) by (metis of_int_le_iff of_int_numeral of_int_power)
  have nx: "of_int n \<le> \<bar>x\<bar>" unfolding n_def by linarith
  have p1: "pow2 (b - 1) = 2 ^ nat (b - 1)" using b1 by (simp add: pow2_def)
  have 1: "pow2 (b - 1) \<le> \<bar>x\<bar>"
    unfolding p1 using lo nx by (rule order_trans)
  have "n + 1 \<le> 2 ^ nat b" using bb(2) by simp
  then have hi: "(of_int (n + 1) :: rat) \<le> 2 ^ nat b"
    by (metis of_int_le_iff of_int_numeral of_int_power)
  have xn: "\<bar>x\<bar> < of_int (n + 1)" unfolding n_def by linarith
  have p2: "pow2 b = 2 ^ nat b" using b1 by (simp add: pow2_def)
  have 2: "\<bar>x\<bar> < pow2 b"
    unfolding p2 using xn hi by (rule less_le_trans)
  show ?thesis using 1 2 e by simp
next
  case False
  then have xl: "\<bar>x\<bar> < 1" by simp
  have xp: "0 < \<bar>x\<bar>" using assms by simp
  define y where "y = 1 / \<bar>x\<bar>"
  have y1: "1 < y" using xl xp by (simp add: y_def)
  define m where "m = \<lceil>y\<rceil> - 1"
  define b where "b = bitlen m"
  have "2 \<le> \<lceil>y\<rceil>" using y1 by (simp add: le_ceiling_iff)
  then have m0: "0 < m" by (simp add: m_def)
  have bb: "2 ^ nat (b - 1) \<le> m" "m < 2 ^ nat b"
    using bitlen_bounds [OF m0] by (simp_all add: b_def)
  have b1: "1 \<le> b"
    using m0 bitlen_eq_zero_iff [of m] bitlen_nonneg [of m] unfolding b_def by linarith
  have e: "binary_exponent x = - b"
    using False by (simp add: binary_exponent_def b_def m_def y_def)
  have my: "of_int m < y" unfolding m_def by linarith
  have ym: "y \<le> of_int (m + 1)" unfolding m_def by linarith
  have "m + 1 \<le> 2 ^ nat b" using bb(2) by simp
  then have m1: "(of_int (m + 1) :: rat) \<le> 2 ^ nat b"
    by (metis of_int_le_iff of_int_numeral of_int_power)
  have yhi: "y \<le> 2 ^ nat b" using ym m1 by (rule order_trans)
  have m2: "(2::rat) ^ nat (b - 1) \<le> of_int m"
    using bb(1) by (metis of_int_le_iff of_int_numeral of_int_power)
  have ylo: "2 ^ nat (b - 1) < y" using m2 my by (rule le_less_trans)
  have xy: "\<bar>x\<bar> = 1 / y" by (simp add: y_def)
  have yp: "0 < y" using y1 by simp
  have 1: "pow2 (- b) \<le> \<bar>x\<bar>"
  proof -
    have "1 / 2 ^ nat b \<le> 1 / y"
      using yhi yp by (simp add: frac_le)
    moreover have "pow2 (- b) = 1 / 2 ^ nat b"
      using b1 by (simp add: pow2_def)
    ultimately show ?thesis by (simp add: xy)
  qed
  have 2: "\<bar>x\<bar> < pow2 (- b + 1)"
  proof -
    have "1 / y < 1 / 2 ^ nat (b - 1)"
      using ylo by (simp add: frac_less2)
    moreover have "pow2 (- b + 1) = 1 / 2 ^ nat (b - 1)"
    proof -
      have "- b + 1 = - int (nat (b - 1))" using b1 by simp
      then show ?thesis by (simp only: pow2_neg_nat)
    qed
    ultimately show ?thesis by (simp add: xy)
  qed
  show ?thesis using 1 2 e by simp
qed

subsection \<open>The rounding error\<close>

lemma round_half_even_near: "\<bar>of_int (round_half_even r) - r\<bar> \<le> 1 / 2"
proof -
  have "of_int \<lfloor>r\<rfloor> \<le> r" "r < of_int \<lfloor>r\<rfloor> + 1" by linarith+
  then show ?thesis
    by (auto simp: round_half_even_def Let_def abs_le_iff)
qed


lemma binary_exponent_zero: "binary_exponent 0 = 0"
  by (simp add: binary_exponent_def bitlen_eq_zero_iff)

lemma binary_exponent_less:
  assumes "\<bar>y\<bar> < pow2 k" "0 < k"
  shows "binary_exponent y < k"
proof (cases "y = 0")
  case True
  then show ?thesis using assms(2) by (simp add: binary_exponent_zero)
next
  case False
  have "pow2 (binary_exponent y) < pow2 k"
    using binary_exponent_bounds [OF False] assms(1) by linarith
  then show ?thesis
    using pow2_mono [of k "binary_exponent y"] by linarith
qed

lemma fl_error: "\<bar>fl x - x\<bar> \<le> pow2 (max (binary_exponent x - 52) (- 1074)) / 2"
proof (cases "x = 0")
  case True
  then show ?thesis using pow2_pos [of "max (binary_exponent x - 52) (- 1074)"] by (simp add: fl_def)
next
  case False
  define q where "q = pow2 (max (binary_exponent x - 52) (- 1074))"
  have q: "0 < q" by (simp add: q_def pow2_pos)
  define k :: rat where "k = of_int (round_half_even (x / q))"
  have f: "fl x = k * q" using False by (simp add: fl_def Let_def q_def k_def)
  have "fl x - x = (k - x / q) * q" using q by (simp add: f field_simps)
  then have "\<bar>fl x - x\<bar> = \<bar>k - x / q\<bar> * q" using q by (simp add: abs_mult)
  also have "\<dots> \<le> (1 / 2) * q"
    using round_half_even_near [of "x / q"] q unfolding k_def by (intro mult_right_mono) simp_all
  finally show ?thesis by (simp add: q_def)
qed

lemma fl_relative: "\<bar>fl x - x\<bar> \<le> \<bar>x\<bar> / 2 ^ 53 + pow2 (- 1075)"
proof (cases "x = 0")
  case True
  then show ?thesis using pow2_pos [of "- 1075"] by (simp add: fl_def)
next
  case False
  let ?e = "binary_exponent x"
  show ?thesis
  proof (cases "- 1074 \<le> ?e - 52")
    case True
    then have m: "max (?e - 52) (- 1074) = ?e - 52" by simp
    have "pow2 (?e - 52) = pow2 ?e * pow2 (- 52)"
      using pow2_add [of ?e "- 52"] by simp
    also have "\<dots> \<le> \<bar>x\<bar> * pow2 (- 52)"
      using binary_exponent_bounds [OF False] pow2_pos [of "- 52"] by (intro mult_right_mono) simp_all
    finally have "pow2 (?e - 52) / 2 \<le> \<bar>x\<bar> * pow2 (- 52) / 2" by simp
    also have "\<dots> = \<bar>x\<bar> / 2 ^ 53" by (simp add: pow2_def)
    finally have "\<bar>fl x - x\<bar> \<le> \<bar>x\<bar> / 2 ^ 53"
      using fl_error [of x] unfolding m by linarith
    then show ?thesis using pow2_pos [of "- 1075"] by linarith
  next
    case False
    then have m: "max (?e - 52) (- 1074) = - 1074" by simp
    have "pow2 (- 1074) / 2 = pow2 (- 1075)"
      using pow2_add [of "- 1075" 1] by (simp add: pow2_nat [of 1, simplified])
    then have "\<bar>fl x - x\<bar> \<le> pow2 (- 1075)"
      using fl_error [of x] unfolding m by simp
    moreover have "0 \<le> \<bar>x\<bar> / 2 ^ 53" by simp
    ultimately show ?thesis by linarith
  qed
qed

lemma to_double_finite:
  assumes "\<bar>fl x\<bar> < pow2 1024"
  shows "to_double x = Finite (fl x)"
  using binary_exponent_less [OF assms] by (simp add: to_double_def Let_def)

lemma number_finite_bound:
  assumes "number d = Finite c"
  shows "\<bar>c\<bar> < pow2 1024"
proof (cases d)
  case (Finite x)
  then have t: "to_double x = Finite c" using assms by simp
  then have c: "c = fl x" and e: "binary_exponent (fl x) < 1024"
    by (auto simp: to_double_def Let_def split: if_splits)
  show ?thesis
  proof (cases "c = 0")
    case True
    then show ?thesis using pow2_pos [of 1024] by simp
  next
    case False
    have "\<bar>c\<bar> < pow2 (binary_exponent c + 1)"
      using binary_exponent_bounds [OF False] by simp
    also have "\<dots> \<le> pow2 1024"
      using e c by (intro pow2_mono) simp
    finally show ?thesis .
  qed
qed (use assms in simp_all)


subsection \<open>Doubles are fixed points\<close>

text \<open>
  Rounding a rounded number changes nothing, so \<open>number\<close> reads a double as itself.
\<close>

lemma round_half_even_of_int: "round_half_even (of_int j) = j"
  by (simp add: round_half_even_def)

lemma round_half_even_small: "\<bar>r\<bar> < 1 / 2 \<Longrightarrow> round_half_even r = 0"
proof -
  assume a: "\<bar>r\<bar> < 1 / 2"
  have "\<lfloor>r\<rfloor> = 0 \<or> \<lfloor>r\<rfloor> = - 1" using a by (auto simp: floor_eq_iff abs_less_iff)
  then show ?thesis using a by (auto simp: round_half_even_def Let_def abs_less_iff)
qed

lemma round_half_even_bound:
  assumes "\<bar>r\<bar> < of_int N"
  shows "\<bar>round_half_even r\<bar> \<le> N"
proof -
  have "of_int \<lfloor>r\<rfloor> \<le> r" "r < of_int \<lfloor>r\<rfloor> + 1" by linarith+
  have 1: "\<lfloor>r\<rfloor> < N" using assms by (simp add: floor_less_iff abs_less_iff)
  have 2: "- N \<le> \<lfloor>r\<rfloor>" using assms by (simp add: le_floor_iff abs_less_iff)
  have 3: "\<lfloor>r\<rfloor> \<le> round_half_even r" "round_half_even r \<le> \<lfloor>r\<rfloor> + 1"
    by (simp_all add: round_half_even_def Let_def)
  show ?thesis using 1 2 3 by linarith
qed

lemma binary_exponent_unique:
  assumes "pow2 a \<le> \<bar>y\<bar>" "\<bar>y\<bar> < pow2 (a + 1)"
  shows "binary_exponent y = a"
proof -
  have y: "y \<noteq> 0" using assms(1) pow2_pos [of a] by auto
  note b = binary_exponent_bounds [OF y]
  have "pow2 (binary_exponent y) < pow2 (a + 1)" using b assms by linarith
  then have 1: "binary_exponent y < a + 1" using pow2_mono [of "a + 1" "binary_exponent y"] by linarith
  have "pow2 a < pow2 (binary_exponent y + 1)" using b assms by linarith
  then have 2: "a < binary_exponent y + 1" using pow2_mono [of "binary_exponent y + 1" a] by linarith
  show ?thesis using 1 2 by simp
qed


lemma pow2_diff: "pow2 (a - b) = pow2 a / pow2 b"
  by (simp add: pow2_powi power_int_diff)

lemma pow2_of_int: "0 \<le> a \<Longrightarrow> pow2 a = of_int (2 ^ nat a)"
  by (simp add: pow2_def)

lemma fl_zero: "fl 0 = 0"
  by (simp add: fl_def)

lemma fl_of_multiple:
  assumes "y = of_int j * pow2 (max (binary_exponent y - 52) (- 1074))"
  shows "fl y = y"
proof (cases "y = 0")
  case True
  then show ?thesis by (simp add: fl_zero)
next
  case False
  let ?q = "pow2 (max (binary_exponent y - 52) (- 1074))"
  have q: "?q \<noteq> 0" using pow2_pos [of "max (binary_exponent y - 52) (- 1074)"] by simp
  have "y / ?q = of_int j" using assms q by (metis nonzero_eq_divide_eq)
  then have "round_half_even (y / ?q) = j" by (simp only: round_half_even_of_int)
  then have "fl y = of_int j * ?q" using False by (simp add: fl_def Let_def)
  then show ?thesis using assms by simp
qed

lemma fl_idem: "fl (fl x) = fl x"
proof (cases "fl x = 0")
  case True
  then show ?thesis by (simp add: fl_zero)
next
  case False
  then have x0: "x \<noteq> 0" by (auto simp: fl_zero)
  define e where "e = binary_exponent x"
  define E where "E = max (e - 52) (- 1074)"
  define k where "k = round_half_even (x / pow2 E)"
  define y where "y = fl x"
  have y: "y = of_int k * pow2 E"
    using x0 by (simp add: y_def fl_def Let_def e_def E_def k_def)
  have y0: "y \<noteq> 0" using False by (simp add: y_def)
  have k0: "k \<noteq> 0" using y0 y by auto
  have qp: "0 < pow2 E" by (rule pow2_pos)
  have bx: "pow2 e \<le> \<bar>x\<bar>" "\<bar>x\<bar> < pow2 (e + 1)"
    using binary_exponent_bounds [OF x0] by (simp_all add: e_def)
  have n0: "0 \<le> e + 1 - E"
  proof (rule ccontr)
    assume "\<not> 0 \<le> e + 1 - E"
    then have "e + 1 \<le> E - 1" by simp
    then have "pow2 (e + 1) \<le> pow2 (E - 1)" by (rule pow2_mono)
    also have "\<dots> = pow2 E / 2" using pow2_diff [of E 1] by (simp add: pow2_def)
    finally have "\<bar>x\<bar> < pow2 E / 2" using bx(2) by simp
    then have "\<bar>x / pow2 E\<bar> < 1 / 2" using qp by (simp add: abs_divide field_simps)
    then have "k = 0" unfolding k_def by (rule round_half_even_small)
    then show False using k0 by simp
  qed
  define n where "n = nat (e + 1 - E)"
  have pn: "pow2 (e + 1) = pow2 E * 2 ^ n"
  proof -
    have "pow2 (e + 1) = pow2 (E + (e + 1 - E))" by simp
    also have "\<dots> = pow2 E * pow2 (e + 1 - E)" by (simp only: pow2_add)
    also have "pow2 (e + 1 - E) = 2 ^ n" using n0 by (simp add: pow2_def n_def)
    finally show ?thesis .
  qed
  have "\<bar>x / pow2 E\<bar> < 2 ^ n"
    using bx(2) qp unfolding pn by (simp add: abs_divide field_simps)
  then have "\<bar>x / pow2 E\<bar> < of_int (2 ^ n)" by simp
  then have kb: "\<bar>k\<bar> \<le> 2 ^ n" unfolding k_def by (rule round_half_even_bound)
  have ay: "\<bar>y\<bar> = of_int \<bar>k\<bar> * pow2 E" using qp by (simp add: y abs_mult)
  have yle: "\<bar>y\<bar> \<le> pow2 (e + 1)"
  proof -
    have "(of_int \<bar>k\<bar> :: rat) \<le> of_int (2 ^ n)" using kb by (simp only: of_int_le_iff)
    then have "of_int \<bar>k\<bar> * pow2 E \<le> of_int (2 ^ n) * pow2 E"
      using qp by (intro mult_right_mono) simp_all
    then show ?thesis unfolding ay pn by (simp add: mult.commute)
  qed
  define e' where "e' = binary_exponent y"
  define E' where "E' = max (e' - 52) (- 1074)"
  have by': "pow2 e' \<le> \<bar>y\<bar>"
    using binary_exponent_bounds [OF y0] by (simp add: e'_def)
  have e'le: "e' \<le> e + 1"
  proof (rule ccontr)
    assume "\<not> e' \<le> e + 1"
    then have "pow2 (e + 1) < pow2 e'" by (intro pow2_strict_mono) simp
    then show False using by' yle by linarith
  qed
  have "\<exists>j. y = of_int j * pow2 E'"
  proof (cases "E' \<le> E")
    case True
    have "pow2 E = pow2 (E' + (E - E'))" by simp
    also have "\<dots> = pow2 E' * pow2 (E - E')" by (simp only: pow2_add)
    also have "pow2 (E - E') = of_int (2 ^ nat (E - E'))"
      using True by (intro pow2_of_int) simp
    finally have "y = of_int (k * 2 ^ nat (E - E')) * pow2 E'"
      unfolding y by simp
    then show ?thesis by blast
  next
    case False
    then have "e < e'" by (simp add: E'_def E_def max_def split: if_splits)
    then have e': "e' = e + 1" using e'le by simp
    have EE: "E' = e' - 52" using False by (simp add: E'_def E_def max_def split: if_splits)
    have ya: "\<bar>y\<bar> = pow2 (e + 1)" using by' yle unfolding e' by simp
    have "e + 1 = E' + 52" using EE e' by simp
    then have "pow2 (e + 1) = pow2 (E' + 52)" by (simp only:)
    also have "\<dots> = pow2 E' * pow2 52" by (simp only: pow2_add)
    also have "pow2 52 = of_int (2 ^ 52)" by (simp add: pow2_def)
    finally have p: "pow2 (e + 1) = of_int (2 ^ 52) * pow2 E'" by simp
    have "y = pow2 (e + 1) \<or> y = - pow2 (e + 1)" using ya by (auto simp: abs_if split: if_splits)
    then show ?thesis
    proof
      assume "y = pow2 (e + 1)"
      then have "y = of_int (2 ^ 52) * pow2 E'" using p by simp
      then show ?thesis by blast
    next
      assume "y = - pow2 (e + 1)"
      then have "y = of_int (- (2 ^ 52)) * pow2 E'" using p by simp
      then show ?thesis by blast
    qed
  qed
  then obtain j where "y = of_int j * pow2 (max (binary_exponent y - 52) (- 1074))"
    by (auto simp: E'_def e'_def)
  then have "fl y = y" by (rule fl_of_multiple)
  then show ?thesis by (simp add: y_def)
qed

lemma number_idem: "number (number d) = number d"
proof (cases d)
  case (Finite x)
  show ?thesis
  proof (cases "binary_exponent (fl x) < 1024")
    case True
    then have "number d = Finite (fl x)" using Finite by (simp add: to_double_def Let_def)
    moreover have "number (Finite (fl x)) = Finite (fl x)"
      using True by (simp add: to_double_def Let_def fl_idem)
    ultimately show ?thesis by simp
  next
    case False
    then have "number d = PosInf \<or> number d = NegInf"
      using Finite by (simp add: to_double_def Let_def)
    then show ?thesis by auto
  qed
qed simp_all

subsection \<open>The product with one tenth\<close>

text \<open>
  The double \<^verbatim>\<open>0.10\<close> exceeds one tenth by the factor \<open>1 + 2 ^ (- 54)\<close>, and rounding the
  product adds a relative error of at most \<open>2 ^ (- 53)\<close>, or \<open>pow2 (- 1075)\<close> for a subnormal
  product. The product of a finite double with it does not overflow.
\<close>

lemma tenth_value: "fl (1 / 10) = 3602879701896397 / 36028797018963968"
  by code_simp

lemma tiny_le_half: "pow2 (- 1075) \<le> 1 / 2"
proof -
  have "pow2 (- 1075) \<le> pow2 (- 1)" by (rule pow2_mono) simp
  then show ?thesis by (simp add: pow2_def)
qed

lemma huge_ge_one: "1 \<le> pow2 1024"
proof -
  have "pow2 0 \<le> pow2 1024" by (rule pow2_mono) simp
  then show ?thesis by (simp add: pow2_def)
qed

lemma tenth_product:
  assumes "\<bar>c\<bar> < pow2 1024"
  shows "double_mult (Finite c) (Finite (fl (1 / 10))) = Finite (fl (c * fl (1 / 10)))"
    and "\<bar>fl (c * fl (1 / 10)) - c / 10\<bar> \<le> \<bar>c\<bar> / 10 / 2 ^ 52 + pow2 (- 1075)"
proof -
  let ?x = "c * fl (1 / 10)"
  have ax: "\<bar>?x\<bar> = \<bar>c\<bar> * (3602879701896397 / 36028797018963968)"
    by (simp add: tenth_value abs_mult)
  have r: "\<bar>fl ?x - ?x\<bar> \<le> \<bar>?x\<bar> / 2 ^ 53 + pow2 (- 1075)"
    by (rule fl_relative)
  have d: "\<bar>?x - c / 10\<bar> = \<bar>c\<bar> * (1 / 180143985094819840)"
  proof -
    have "?x = c * (3602879701896397 / 36028797018963968)" by (simp only: tenth_value)
    then have "?x - c / 10 = c * (1 / 180143985094819840)" by linarith
    then have "\<bar>?x - c / 10\<bar> = \<bar>c * (1 / 180143985094819840)\<bar>" by (simp only:)
    also have "\<dots> = \<bar>c\<bar> * (1 / 180143985094819840)" by (simp add: abs_mult)
    finally show ?thesis .
  qed
  have "\<bar>fl ?x\<bar> \<le> \<bar>?x\<bar> + \<bar>fl ?x - ?x\<bar>" by linarith
  then have "\<bar>fl ?x\<bar> < pow2 1024"
    using r assms tiny_le_half huge_ge_one unfolding ax by simp
  then have "to_double ?x = Finite (fl ?x)" by (rule to_double_finite)
  then show "double_mult (Finite c) (Finite (fl (1 / 10))) = Finite (fl ?x)" by simp
  have "\<bar>fl ?x - c / 10\<bar> \<le> \<bar>fl ?x - ?x\<bar> + \<bar>?x - c / 10\<bar>" by linarith
  then show "\<bar>fl ?x - c / 10\<bar> \<le> \<bar>c\<bar> / 10 / 2 ^ 52 + pow2 (- 1075)"
    using r unfolding ax d by simp
qed

lemma equity_check_near_tenth:
  assumes "number cd = Finite c" "number ed = Finite e"
  shows "(c / 10 + \<bar>c\<bar> / 10 / 2 ^ 52 + pow2 (- 1075) \<le> e \<longrightarrow>
           double_ge (number ed) (double_mult (number cd) (Finite (fl (1 / 10)))))
       \<and> (double_ge (number ed) (double_mult (number cd) (Finite (fl (1 / 10)))) \<longrightarrow>
           c / 10 - \<bar>c\<bar> / 10 / 2 ^ 52 - pow2 (- 1075) \<le> e)"
proof -
  have b: "\<bar>c\<bar> < pow2 1024" using assms(1) by (rule number_finite_bound)
  have g: "double_ge (number ed) (double_mult (number cd) (Finite (fl (1 / 10))))
             \<longleftrightarrow> fl (c * fl (1 / 10)) \<le> e"
    by (simp only: assms tenth_product(1) [OF b] double_ge.simps)
  show ?thesis
    unfolding g using tenth_product(2) [OF b] by (auto simp: abs_le_iff)
qed

section \<open>Properties of the SBA 504 eligibility assessment\<close>

lemma checks_unfold:
  "checks (assessSBA504Eligibility info) =
     \<lparr>sizeStandards = checkSizeStandards (number (orDefault (employeeCount info) (Finite 0)))
                        (number (orDefault (averageAnnualReceipts info) (Finite 0)))
                        (orDefault (industry info) ''other''),
      businessAge = double_ge (number (orDefault (businessInfo.businessAge info) (Finite 0))) (Finite 2),
      ownerEquity = double_ge (number (orDefault (businessInfo.ownerEquity info) (Finite 0)))
                      (double_mult (number (orDefault (projectCost info) (Finite 0))) (Finite (fl (1 / 10)))),
      ownerOccupancy = double_ge (number (orDefault (businessInfo.ownerOccupancy info) (Finite 51))) (Finite 51),
      creditworthiness = True, jobCreation = True\<rparr>"
  by (simp add: assessSBA504Eligibility_def Let_def)

lemma eligible_unfold:
  "eligible (assessSBA504Eligibility info) =
     (sizeStandards (checks (assessSBA504Eligibility info))
      \<and> businessAge (checks (assessSBA504Eligibility info))
      \<and> ownerEquity (checks (assessSBA504Eligibility info))
      \<and> ownerOccupancy (checks (assessSBA504Eligibility info)))"
  by (simp add: assessSBA504Eligibility_def Let_def)

text \<open>
  Claim C5, as the code has it. For every \<^verbatim>\<open>businessInfo\<close>, \<^verbatim>\<open>assessSBA504Eligibility\<close> answers
  eligible exactly when all of its checks pass: the size standard of the industry, at least
  two years in business, an owner equity that is at least the double
  \<^verbatim>\<open>projectCost * 0.10\<close> (the rounded product of the project cost and the double nearest to
  one tenth), and an owner occupancy of at least 51 (credit worthiness and job creation are
  constantly true). So eligibility implies the checks the specification calls critical, and
  a business age that is not at least 2 or an owner occupancy that is not at least 51 blocks
  eligibility by itself. For a finite project cost \<open>c\<close> and a finite owner equity \<open>e\<close> the
  equity test is the comparison of \<open>e\<close> with a tenth of \<open>c\<close> up to the rounding: it passes when
  \<open>e\<close> is at least \<open>c / 10\<close> plus the margin \<open>\<bar>c\<bar> / 10 / 2 ^ 52 + pow2 (- 1075)\<close>, and it fails
  when \<open>e\<close> is below \<open>c / 10\<close> minus that margin.
\<close>

theorem sba504_eligible_iff_all_checks:
  "eligible (assessSBA504Eligibility info) =
     (checkSizeStandards (number (orDefault (employeeCount info) (Finite 0)))
        (number (orDefault (averageAnnualReceipts info) (Finite 0))) (orDefault (industry info) ''other'')
      \<and> double_ge (number (orDefault (businessInfo.businessAge info) (Finite 0))) (Finite 2)
      \<and> double_ge (number (orDefault (businessInfo.ownerEquity info) (Finite 0)))
            (double_mult (number (orDefault (projectCost info) (Finite 0))) (Finite (fl (1 / 10))))
      \<and> double_ge (number (orDefault (businessInfo.ownerOccupancy info) (Finite 51))) (Finite 51))
   \<and> creditworthiness (checks (assessSBA504Eligibility info))
   \<and> jobCreation (checks (assessSBA504Eligibility info))
   \<and> (eligible (assessSBA504Eligibility info) \<longrightarrow>
        specifiedCriticalChecks (checks (assessSBA504Eligibility info)))
   \<and> (\<not> double_ge (number (orDefault (businessInfo.businessAge info) (Finite 0))) (Finite 2) \<longrightarrow>
        \<not> eligible (assessSBA504Eligibility info))
   \<and> (\<not> double_ge (number (orDefault (businessInfo.ownerOccupancy info) (Finite 51))) (Finite 51) \<longrightarrow>
        \<not> eligible (assessSBA504Eligibility info))
   \<and> (number (orDefault (projectCost info) (Finite 0)) = Finite c
        \<and> number (orDefault (businessInfo.ownerEquity info) (Finite 0)) = Finite e \<longrightarrow>
        (c / 10 + \<bar>c\<bar> / 10 / 2 ^ 52 + pow2 (- 1075) \<le> e \<longrightarrow>
           ownerEquity (checks (assessSBA504Eligibility info)))
        \<and> (ownerEquity (checks (assessSBA504Eligibility info)) \<longrightarrow>
           c / 10 - \<bar>c\<bar> / 10 / 2 ^ 52 - pow2 (- 1075) \<le> e))"
proof -
  have near: "(c / 10 + \<bar>c\<bar> / 10 / 2 ^ 52 + pow2 (- 1075) \<le> e \<longrightarrow>
           ownerEquity (checks (assessSBA504Eligibility info)))
        \<and> (ownerEquity (checks (assessSBA504Eligibility info)) \<longrightarrow>
           c / 10 - \<bar>c\<bar> / 10 / 2 ^ 52 - pow2 (- 1075) \<le> e)"
    if "number (orDefault (projectCost info) (Finite 0)) = Finite c"
      and "number (orDefault (businessInfo.ownerEquity info) (Finite 0)) = Finite e"
    using equity_check_near_tenth [OF that] by (simp only: checks_unfold eligibilityChecks.select_convs)
  show ?thesis
    using near by (auto simp: eligible_unfold checks_unfold specifiedCriticalChecks_def)
qed

text \<open>
  The theorem at an established retail business (eligible), at the empty \<^verbatim>\<open>businessInfo\<close>
  (business age 0 by default), at a business that occupies 40% of its building, and at two
  businesses whose equity test is decided by the rounding of the product: with a project
  cost of 1000002 the product is the double above the one \<^verbatim>\<open>100000.2\<close> denotes, and the
  business is not eligible; with a project cost of 163843 the product is the double
  \<^verbatim>\<open>16384.3\<close> denotes, which is below a tenth of the cost, and the business is eligible.
  The computation that decides each of them is in \<open>demo_inputs\<close>.
\<close>

lemma established_checks:
  "checks (assessSBA504Eligibility establishedBusiness) =
     \<lparr>sizeStandards = True, businessAge = True, ownerEquity = True, ownerOccupancy = True,
      creditworthiness = True, jobCreation = True\<rparr>"
  by code_simp

lemma empty_checks:
  "checks (assessSBA504Eligibility emptyBusinessInfo) =
     \<lparr>sizeStandards = True, businessAge = False, ownerEquity = True, ownerOccupancy = True,
      creditworthiness = True, jobCreation = True\<rparr>"
  by code_simp

lemma landlord_checks:
  "checks (assessSBA504Eligibility landlordBusiness) =
     \<lparr>sizeStandards = True, businessAge = True, ownerEquity = True, ownerOccupancy = False,
      creditworthiness = True, jobCreation = True\<rparr>"
  by code_simp

lemma shortEquity_checks:
  "checks (assessSBA504Eligibility shortEquityBusiness) =
     \<lparr>sizeStandards = True, businessAge = True, ownerEquity = False, ownerOccupancy = True,
      creditworthiness = True, jobCreation = True\<rparr>"
  by code_simp

lemma roundedEquity_checks:
  "checks (assessSBA504Eligibility roundedEquityBusiness) =
     \<lparr>sizeStandards = True, businessAge = True, ownerEquity = True, ownerOccupancy = True,
      creditworthiness = True, jobCreation = True\<rparr>"
  by code_simp

lemma demo_inputs:
  "\<not> double_ge (number (orDefault (businessInfo.businessAge emptyBusinessInfo) (Finite 0))) (Finite 2)"
  "\<not> double_ge (number (orDefault (businessInfo.ownerOccupancy landlordBusiness) (Finite 51)))
       (Finite 51)"
  "number (Finite 16384.3) = Finite (fl 16384.3)"
  "fl 16384.3 < 16384.3"
  "double_mult (number (Finite 163843)) (Finite (fl (1 / 10))) = Finite (fl 16384.3)"
  "number (Finite 100000.2) = Finite (fl 100000.2)"
  "fl 100000.2 < 100000.2"
  "double_mult (number (Finite 1000002)) (Finite (fl (1 / 10))) = Finite (fl 100000.2 + pow2 (- 36))"
  "number (Finite (fl 16384.3)) = Finite (fl 16384.3)"
  "number (Finite (fl 100000.2)) = Finite (fl 100000.2)"
  by code_simp+

lemma demo_readings:
  "number (orDefault (projectCost establishedBusiness) (Finite 0)) = Finite 1500000"
  "number (orDefault (businessInfo.ownerEquity establishedBusiness) (Finite 0)) = Finite 200000"
  "number (orDefault (projectCost roundedEquityBusiness) (Finite 0)) = Finite 163843"
  "number (orDefault (businessInfo.ownerEquity roundedEquityBusiness) (Finite 0))
     = Finite (fl 16384.3)"
  by code_simp+

theorem sba504_eligible_iff_all_checks_witness:
  "eligible (assessSBA504Eligibility establishedBusiness)
   \<and> specifiedCriticalChecks (checks (assessSBA504Eligibility establishedBusiness))
   \<and> \<not> double_ge (number (orDefault (businessInfo.businessAge emptyBusinessInfo) (Finite 0))) (Finite 2)
   \<and> \<not> eligible (assessSBA504Eligibility emptyBusinessInfo)
   \<and> \<not> double_ge (number (orDefault (businessInfo.ownerOccupancy landlordBusiness) (Finite 51)))
         (Finite 51)
   \<and> \<not> eligible (assessSBA504Eligibility landlordBusiness)
   \<and> \<not> eligible (assessSBA504Eligibility shortEquityBusiness)
   \<and> eligible (assessSBA504Eligibility roundedEquityBusiness)
   \<and> number (orDefault (projectCost establishedBusiness) (Finite 0)) = Finite 1500000
   \<and> number (orDefault (businessInfo.ownerEquity establishedBusiness) (Finite 0)) = Finite 200000
   \<and> 1500000 / 10 + \<bar>1500000\<bar> / 10 / 2 ^ 52 + pow2 (- 1075) \<le> (200000 :: rat)
   \<and> ownerEquity (checks (assessSBA504Eligibility establishedBusiness))
   \<and> number (orDefault (projectCost roundedEquityBusiness) (Finite 0)) = Finite 163843
   \<and> number (orDefault (businessInfo.ownerEquity roundedEquityBusiness) (Finite 0))
         = Finite (fl 16384.3)
   \<and> ownerEquity (checks (assessSBA504Eligibility roundedEquityBusiness))
   \<and> 163843 / 10 - \<bar>163843\<bar> / 10 / 2 ^ 52 - pow2 (- 1075) \<le> fl 16384.3
   \<and> fl 16384.3 < 163843 / 10"
proof -
  have a: "eligible (assessSBA504Eligibility establishedBusiness)
           \<and> specifiedCriticalChecks (checks (assessSBA504Eligibility establishedBusiness))"
    using sba504_eligible_iff_all_checks [of establishedBusiness]
    by (simp add: eligible_unfold established_checks)
  have b: "\<not> eligible (assessSBA504Eligibility emptyBusinessInfo)"
    using sba504_eligible_iff_all_checks [of emptyBusinessInfo] demo_inputs(1) by blast
  have c: "\<not> eligible (assessSBA504Eligibility landlordBusiness)"
    using sba504_eligible_iff_all_checks [of landlordBusiness] demo_inputs(2) by blast
  have d: "\<not> eligible (assessSBA504Eligibility shortEquityBusiness)"
    by (simp add: eligible_unfold shortEquity_checks)
  have e: "eligible (assessSBA504Eligibility roundedEquityBusiness)"
    by (simp add: eligible_unfold roundedEquity_checks)
  have f: "fl 16384.3 < (163843 / 10 :: rat)"
    using demo_inputs(4) by simp
  have g: "1500000 / 10 + \<bar>1500000\<bar> / 10 / 2 ^ 52 + pow2 (- 1075) \<le> (200000 :: rat)"
    using tiny_le_half by simp
  have h: "ownerEquity (checks (assessSBA504Eligibility establishedBusiness))"
    using sba504_eligible_iff_all_checks [of establishedBusiness 1500000 200000]
          demo_readings(1,2) g
    by blast
  have i: "ownerEquity (checks (assessSBA504Eligibility roundedEquityBusiness))"
    by (simp add: roundedEquity_checks)
  have j: "163843 / 10 - \<bar>163843\<bar> / 10 / 2 ^ 52 - pow2 (- 1075) \<le> fl 16384.3"
    using sba504_eligible_iff_all_checks [of roundedEquityBusiness 163843 "fl 16384.3"]
          demo_readings(3,4) i
    by blast
  show ?thesis
    using a b c d e f g h i j demo_inputs(1,2) demo_readings by blast
qed

text \<open>
  Claim C5 as stated fails: on the empty \<^verbatim>\<open>businessInfo\<close> (the default argument) every
  critical check passes and the business is not eligible, because its age defaults to 0;
  with an owner occupancy of 40% every critical check passes and the business is not
  eligible either.
\<close>

theorem sba504_business_age_blocks:
  "specifiedCriticalChecks (checks (assessSBA504Eligibility emptyBusinessInfo))
   \<and> \<not> eligible (assessSBA504Eligibility emptyBusinessInfo)
   \<and> specifiedCriticalChecks (checks (assessSBA504Eligibility landlordBusiness))
   \<and> \<not> eligible (assessSBA504Eligibility landlordBusiness)"
  by (simp add: eligible_unfold empty_checks landlord_checks specifiedCriticalChecks_def)

section \<open>Properties of address normalization\<close>

subsection \<open>Character classes\<close>

lemma word_nonspace: "is_word c \<Longrightarrow> \<not> is_space c"
  by (auto simp: is_word_def is_space_def is_letter_def is_digit_def)

lemma lower_case_is_word: "97 \<le> ascii_lower c \<Longrightarrow> ascii_lower c \<le> 122 \<Longrightarrow> is_word c"
  by (auto simp: ascii_lower_def is_word_def is_letter_def split: if_splits)

lemma alternatives_lower:
  "a \<in> set suffixAlternatives \<Longrightarrow> lower_letters (js_str a) \<and> js_str a \<noteq> []"
  by (auto simp: suffixAlternatives_def lower_letters_def js_str_def)

lemma lowered_word:
  assumes "map ascii_lower xs = a" "lower_letters a"
  shows "list_all is_word xs"
  using assms
  by (induction xs arbitrary: a) (auto simp: lower_letters_def lower_case_is_word)

subsection \<open>One alternative\<close>

lemma takeWhile_append_stop:
  "list_all P xs \<Longrightarrow> ys = [] \<or> \<not> P (hd ys) \<Longrightarrow> takeWhile P (xs @ ys) = xs"
  by (induction xs) (auto simp: takeWhile_eq_Nil_iff neq_Nil_conv)

lemma dropWhile_append_stop:
  "list_all P xs \<Longrightarrow> ys = [] \<or> \<not> P (hd ys) \<Longrightarrow> dropWhile P (xs @ ys) = ys"
  by (induction xs) (auto simp: dropWhile_eq_self_iff neq_Nil_conv)

lemma dropWhile_stop: "dropWhile P s = [] \<or> \<not> P (hd (dropWhile P s))"
  by (metis hd_dropWhile)

lemma alternative_matches_iff:
  assumes "lower_letters (js_str a)" "js_str a \<noteq> []"
  shows "(length a \<le> length s \<and> map ascii_lower (take (length a) s) = js_str a
          \<and> word_boundary (is_word (last (take (length a) s))) (drop (length a) s))
         \<longleftrightarrow> map ascii_lower (takeWhile is_word s) = js_str a"
    (is "?L \<longleftrightarrow> ?R")
proof
  let ?n = "length a"
  assume L: ?L
  have n: "0 < ?n" using assms(2) by (simp add: js_str_def)
  have all: "list_all is_word (take ?n s)"
    using L assms(1) lowered_word by blast
  have ne: "take ?n s \<noteq> []" using L n by auto
  then have "is_word (last (take ?n s))"
    using all by (simp add: list_all_iff)
  then have stop: "drop ?n s = [] \<or> \<not> is_word (hd (drop ?n s))"
    using L by (auto simp: word_boundary_def split: list.splits)
  have "takeWhile is_word (take ?n s @ drop ?n s) = take ?n s"
    using all stop by (rule takeWhile_append_stop)
  then show ?R using L by simp
next
  let ?n = "length a"
  let ?w = "takeWhile is_word s"
  assume R: ?R
  have len: "length ?w = ?n"
    using R by (metis length_map js_str_def)
  have s: "s = ?w @ dropWhile is_word s" by simp
  have tk: "take ?n s = ?w"
    using len by (metis s append_eq_conv_conj)
  have dr: "drop ?n s = dropWhile is_word s"
    using len by (metis s append_eq_conv_conj)
  have ne: "?w \<noteq> []" using R assms(2) by auto
  have "is_word (last ?w)"
    using ne by (metis last_in_set set_takeWhileD)
  moreover have "drop ?n s = [] \<or> \<not> is_word (hd (drop ?n s))"
    unfolding dr by (rule dropWhile_stop)
  ultimately have "word_boundary (is_word (last (take ?n s))) (drop ?n s)"
    by (auto simp: tk word_boundary_def split: list.splits)
  moreover have "?n \<le> length s"
    using len by (metis length_takeWhile_le)
  ultimately show ?L using R tk by simp
qed

lemma first_alternative_eq:
  assumes "\<forall>a \<in> set alts. lower_letters (js_str a) \<and> js_str a \<noteq> []"
  shows "first_alternative alts s =
           (if map ascii_lower (takeWhile is_word s) \<in> js_str ` set alts
            then Some (length (takeWhile is_word s)) else None)"
  using assms
proof (induction alts)
  case Nil
  then show ?case by simp
next
  case (Cons a alts)
  have a: "lower_letters (js_str a)" "js_str a \<noteq> []" using Cons.prems by auto
  have len: "map ascii_lower (takeWhile is_word s) = js_str a \<Longrightarrow> length a = length (takeWhile is_word s)"
    by (metis length_map js_str_def)
  show ?case
    using Cons alternative_matches_iff [OF a, of s] len
    by (auto simp: Let_def)
qed

lemma match_at_eq:
  "match_at p s =
     (if \<not> p \<and> map ascii_lower (takeWhile is_word s) \<in> suffix_words
      then Some (length (takeWhile is_word s)) else None)"
proof -
  have alts: "\<forall>a \<in> set suffixAlternatives. lower_letters (js_str a) \<and> js_str a \<noteq> []"
    using alternatives_lower by blast
  have ne: "takeWhile is_word s \<noteq> []" if h: "map ascii_lower (takeWhile is_word s) \<in> suffix_words"
  proof -
    obtain a where "a \<in> set suffixAlternatives" "map ascii_lower (takeWhile is_word s) = js_str a"
      using h by (auto simp: suffix_words_def)
    then have "map ascii_lower (takeWhile is_word s) \<noteq> []"
      using alternatives_lower by metis
    then show ?thesis by simp
  qed
  have b: "word_boundary p s = (p \<noteq> (takeWhile is_word s \<noteq> []))"
    by (cases s) (auto simp: word_boundary_def)
  show ?thesis
    using ne by (auto simp: match_at_def first_alternative_eq [OF alts] suffix_words_def [symmetric] b)
qed

subsection \<open>The replacement, run by run\<close>

lemma Nil_not_suffix_word: "[] \<notin> suffix_words"
proof
  assume "[] \<in> suffix_words"
  then obtain a where "a \<in> set suffixAlternatives" "js_str a = []"
    by (auto simp: suffix_words_def)
  then show False using alternatives_lower by metis
qed

declare replace_suffixes.simps(2) [simp del]

lemma take_length_takeWhile: "take (length (takeWhile P s)) s = takeWhile P s"
  by (metis append_eq_conv_conj takeWhile_dropWhile_id)

lemma drop_length_takeWhile: "drop (length (takeWhile P s)) s = dropWhile P s"
  by (metis append_eq_conv_conj takeWhile_dropWhile_id)

lemma replace_nonword: "\<not> is_word c \<Longrightarrow> replace_suffixes p (c # cs) = c # replace_suffixes False cs"
  by (simp add: replace_suffixes.simps(2) match_at_eq Nil_not_suffix_word)

lemma replace_inside_word: "is_word c \<Longrightarrow> replace_suffixes True (c # cs) = c # replace_suffixes True cs"
  by (simp add: replace_suffixes.simps(2) match_at_eq)

lemma replace_after_word:
  "replace_suffixes True s = takeWhile is_word s @ replace_suffixes True (dropWhile is_word s)"
  by (induction s) (simp_all add: replace_inside_word)

lemma replace_at_word_start:
  "replace_suffixes False s
     = replace_word (takeWhile is_word s) @ replace_suffixes True (dropWhile is_word s)"
proof (cases s)
  case Nil
  then show ?thesis by (simp add: replace_word_def Nil_not_suffix_word)
next
  case (Cons c cs)
  show ?thesis
  proof (cases "is_word c")
    case False
    then show ?thesis
      by (simp add: Cons replace_nonword replace_word_def Nil_not_suffix_word)
  next
    case True
    let ?w = "takeWhile is_word s"
    have ne: "?w \<noteq> []" using True Cons by simp
    then have lw: "is_word (last ?w)"
      by (metis last_in_set set_takeWhileD)
    show ?thesis
    proof (cases "map ascii_lower ?w \<in> suffix_words")
      case in_words: True
      then have m: "match_at False (c # cs) = Some (length ?w)"
        by (simp add: match_at_eq Cons)
      have "replace_suffixes False (c # cs)
              = abbreviate (take (length ?w) s)
                @ replace_suffixes (is_word (last (take (length ?w) s))) (drop (length ?w) s)"
        by (simp only: replace_suffixes.simps m option.case Cons)
      also have "\<dots> = abbreviate ?w @ replace_suffixes True (dropWhile is_word s)"
        by (simp only: take_length_takeWhile drop_length_takeWhile lw)
      finally show ?thesis
        using in_words by (simp add: replace_word_def Cons)
    next
      case not_in_words: False
      then have m: "match_at False (c # cs) = None"
        by (simp add: match_at_eq Cons)
      have "replace_suffixes False (c # cs) = c # replace_suffixes True cs"
        using True by (simp only: replace_suffixes.simps m option.case)
      also have "\<dots> = c # takeWhile is_word cs @ replace_suffixes True (dropWhile is_word cs)"
        using replace_after_word [of cs] by simp
      finally show ?thesis
        using not_in_words True by (simp add: replace_word_def Cons)
    qed
  qed
qed

subsection \<open>The callback\<close>

lemma abbreviate_cases:
  "abbreviate w = w \<or> abbreviate w \<in> js_str ` snd ` set abbrevMap"
  by (auto simp: abbreviate_def abbrevMap_def split: option.splits)

lemma abbreviation_fixed:
  "a \<in> js_str ` snd ` set abbrevMap \<Longrightarrow> replace_word a = a \<and> list_all is_word a \<and> a \<noteq> []"
  by (auto simp: abbrevMap_def replace_word_def abbreviate_def js_str_def ascii_lower_def
        is_word_def is_letter_def)

lemma replace_word_idem: "replace_word (replace_word w) = replace_word w"
proof (cases "replace_word w = w")
  case True
  then show ?thesis by simp
next
  case False
  then have "replace_word w = abbreviate w" "abbreviate w \<noteq> w"
    by (auto simp: replace_word_def split: if_splits)
  then have "replace_word w \<in> js_str ` snd ` set abbrevMap"
    using abbreviate_cases [of w] by auto
  then show ?thesis
    using abbreviation_fixed by blast
qed

lemma replace_word_cases:
  "replace_word w = w \<or> replace_word w \<in> js_str ` snd ` set abbrevMap"
  using abbreviate_cases [of w] by (auto simp: replace_word_def)

lemma replace_word_is_word: "list_all is_word w \<Longrightarrow> list_all is_word (replace_word w)"
  using replace_word_cases [of w] abbreviation_fixed by metis

lemma replace_word_nonempty: "w \<noteq> [] \<Longrightarrow> replace_word w \<noteq> []"
  using replace_word_cases [of w] abbreviation_fixed by metis

subsection \<open>Replacing twice\<close>

lemma takeWhile_all: "list_all P (takeWhile P s)"
  by (induction s) auto

lemma replace_rest_shape:
  "replace_suffixes True (dropWhile is_word s) = []
   \<or> (\<exists>c cs. dropWhile is_word s = c # cs \<and> \<not> is_word c
        \<and> replace_suffixes True (dropWhile is_word s) = c # replace_suffixes False cs)"
proof (cases "dropWhile is_word s")
  case Nil
  then show ?thesis by (metis replace_suffixes.simps(1))
next
  case (Cons c cs)
  then have "\<not> is_word c"
    by (metis hd_dropWhile list.sel(1) list.distinct(1))
  then show ?thesis
    by (simp add: Cons replace_nonword)
qed

lemma replace_rest_stop:
  "replace_suffixes True (dropWhile is_word s) = []
   \<or> \<not> is_word (hd (replace_suffixes True (dropWhile is_word s)))"
  using replace_rest_shape [of s] by auto

lemma replace_idem: "replace_suffixes p (replace_suffixes p s) = replace_suffixes p s"
proof (induction "length s" arbitrary: s p rule: less_induct)
  case less
  let ?w = "takeWhile is_word s"
  let ?u = "replace_suffixes True (dropWhile is_word s)"
  have stop: "?u = [] \<or> \<not> is_word (hd ?u)"
    by (rule replace_rest_stop)
  have wall: "list_all is_word ?w"
    by (rule takeWhile_all)
  have fixed: "replace_suffixes True ?u = ?u"
  proof -
    consider "?u = []"
      | c cs where "dropWhile is_word s = c # cs" "\<not> is_word c" "?u = c # replace_suffixes False cs"
      using replace_rest_shape [of s] by blast
    then show ?thesis
    proof cases
      case 1
      then show ?thesis by simp
    next
      case 2
      have "length cs < length (dropWhile is_word s)" using 2(1) by simp
      also have "\<dots> \<le> length s" by (rule length_dropWhile_le)
      finally have "replace_suffixes False (replace_suffixes False cs) = replace_suffixes False cs"
        by (rule less)
      then show ?thesis
        using 2 by (simp add: replace_nonword)
    qed
  qed
  show ?case
  proof (cases p)
    case True
    have "replace_suffixes True s = ?w @ ?u"
      by (rule replace_after_word)
    moreover have "replace_suffixes True (?w @ ?u) = ?w @ replace_suffixes True ?u"
      using replace_after_word [of "?w @ ?u"]
      by (simp only: takeWhile_append_stop [OF wall stop]
            dropWhile_append_stop [OF wall stop])
    ultimately show ?thesis
      using True fixed by simp
  next
    case False
    let ?r = "replace_word ?w"
    have r: "list_all is_word ?r"
      by (rule replace_word_is_word [OF wall])
    have "replace_suffixes False s = ?r @ ?u"
      by (rule replace_at_word_start)
    moreover have "replace_suffixes False (?r @ ?u) = replace_word ?r @ replace_suffixes True ?u"
      using replace_at_word_start [of "?r @ ?u"]
      by (simp only: takeWhile_append_stop [OF r stop] dropWhile_append_stop [OF r stop])
    ultimately show ?thesis
      using False fixed by (simp add: replace_word_idem)
  qed
qed

subsection \<open>Tidy strings\<close>

lemma tidy_tail_append_nonspace:
  "list_all (\<lambda>c. \<not> is_space c) xs \<Longrightarrow> tidy_tail (xs @ ys) = tidy_tail ys"
  by (induction xs) auto

lemma words_nonspace: "list_all is_word xs \<Longrightarrow> list_all (\<lambda>c. \<not> is_space c) xs"
  by (induction xs) (auto simp: word_nonspace)

lemma replace_head_nonspace:
  "s \<noteq> [] \<Longrightarrow> \<not> is_space (hd s) \<Longrightarrow>
     replace_suffixes p s \<noteq> [] \<and> \<not> is_space (hd (replace_suffixes p s))"
proof (cases s)
  case Nil
  then show "s \<noteq> [] \<Longrightarrow> ?thesis" by simp
next
  case (Cons c cs)
  assume ns: "\<not> is_space (hd s)"
  show ?thesis
  proof (cases "is_word c")
    case False
    then show ?thesis using ns Cons by (simp add: replace_nonword)
  next
    case True
    let ?w = "takeWhile is_word s"
    have ne: "?w \<noteq> []" using True Cons by simp
    have hdw: "hd ?w = c" using True Cons by simp
    show ?thesis
    proof (cases p)
      case pt: True
      have "replace_suffixes True s = ?w @ replace_suffixes True (dropWhile is_word s)"
        by (rule replace_after_word)
      then show ?thesis using pt ne hdw ns Cons by simp
    next
      case pf: False
      let ?r = "replace_word ?w"
      have "list_all is_word ?w" by (rule takeWhile_all)
      then have "list_all is_word ?r" by (rule replace_word_is_word)
      moreover have rne: "?r \<noteq> []" by (rule replace_word_nonempty [OF ne])
      ultimately have "is_word (hd ?r)"
        by (cases ?r) auto
      then have "\<not> is_space (hd ?r)" by (rule word_nonspace)
      moreover have "replace_suffixes False s = ?r @ replace_suffixes True (dropWhile is_word s)"
        by (rule replace_at_word_start)
      ultimately show ?thesis using pf rne by simp
    qed
  qed
qed

lemma replace_tidy_tail: "tidy_tail s \<Longrightarrow> tidy_tail (replace_suffixes p s)"
proof (induction "length s" arbitrary: s p rule: less_induct)
  case less
  let ?w = "takeWhile is_word s"
  let ?t = "dropWhile is_word s"
  let ?u = "replace_suffixes True ?t"
  have wall: "list_all is_word ?w"
    by (rule takeWhile_all)
  have wn: "list_all (\<lambda>c. \<not> is_space c) ?w"
    by (rule words_nonspace [OF wall])
  have "tidy_tail (?w @ ?t)" using less.prems by simp
  then have tt: "tidy_tail ?t"
    by (simp only: tidy_tail_append_nonspace [OF wn])
  have u: "tidy_tail ?u"
  proof -
    consider "?u = []"
      | c cs where "?t = c # cs" "\<not> is_word c" "?u = c # replace_suffixes False cs"
      using replace_rest_shape [of s] by blast
    then show ?thesis
    proof cases
      case 1
      then show ?thesis by simp
    next
      case 2
      have "length cs < length ?t" using 2(1) by simp
      also have "\<dots> \<le> length s" by (rule length_dropWhile_le)
      finally have len: "length cs < length s" .
      have tcs: "tidy_tail cs"
        using tt 2(1) by (simp split: if_splits)
      have ih: "tidy_tail (replace_suffixes False cs)"
        by (rule less(1) [OF len tcs])
      show ?thesis
      proof (cases "is_space c")
        case True
        then have "c = 32" "cs \<noteq> []" "\<not> is_space (hd cs)"
          using tt 2(1) by simp_all
        then show ?thesis
          using True ih 2(3) replace_head_nonspace [of cs False] by simp
      next
        case False
        then show ?thesis using ih 2(3) by simp
      qed
    qed
  qed
  show ?case
  proof (cases p)
    case True
    have "replace_suffixes True s = ?w @ ?u" by (rule replace_after_word)
    then show ?thesis
      using True u by (simp only: tidy_tail_append_nonspace [OF wn])
  next
    case False
    have rn: "list_all (\<lambda>c. \<not> is_space c) (replace_word ?w)"
      by (rule words_nonspace [OF replace_word_is_word [OF wall]])
    have "replace_suffixes False s = replace_word ?w @ ?u" by (rule replace_at_word_start)
    then show ?thesis
      using False u by (simp only: tidy_tail_append_nonspace [OF rn])
  qed
qed

lemma replace_tidy: "tidy s \<Longrightarrow> tidy (replace_suffixes p s)"
  using replace_head_nonspace [of s p] replace_tidy_tail [of s p]
  by (cases s) (auto simp: tidy_def)

subsection \<open>Trimming and collapsing\<close>

lemma dropWhile_last:
  "dropWhile P xs \<noteq> [] \<Longrightarrow> last (dropWhile P xs) = last xs"
  by (induction xs) (auto split: if_splits)

lemma trim_shape:
  "trim s = [] \<or> (\<not> is_space (hd (trim s)) \<and> \<not> is_space (last (trim s)))"
proof (cases "trim s = []")
  case True
  then show ?thesis by simp
next
  case False
  let ?a = "dropWhile is_space s"
  let ?b = "dropWhile is_space (rev ?a)"
  have t: "trim s = rev ?b" by (simp add: trim_def)
  have b: "?b \<noteq> []" using False t by simp
  have a: "?a \<noteq> []"
  proof
    assume "?a = []"
    then have "?b = []" by (simp only: rev.simps dropWhile.simps)
    then show False using b by simp
  qed
  have "\<not> is_space (hd ?b)" using b by (rule hd_dropWhile)
  then have l: "\<not> is_space (last (trim s))"
    using b by (simp add: t last_rev)
  have "last ?b = last (rev ?a)" using b by (rule dropWhile_last)
  also have "\<dots> = hd ?a" using a by (simp add: last_rev)
  finally have "hd (trim s) = hd ?a"
    using b by (simp add: t hd_rev)
  moreover have "\<not> is_space (hd ?a)" using a by (rule hd_dropWhile)
  ultimately show ?thesis using l by simp
qed

lemma collapse_tidy_tail: "t = [] \<or> \<not> is_space (last t) \<Longrightarrow> tidy_tail (collapse_ws t)"
proof (induction t rule: collapse_ws.induct)
  case 1
  then show ?case by simp
next
  case (2 c cs)
  show ?case
  proof (cases "is_space c")
    case True
    let ?d = "dropWhile is_space cs"
    have cs: "cs \<noteq> []" "\<not> is_space (last cs)"
      using 2(3) True by (auto split: if_splits)
    then have "\<exists>x \<in> set cs. \<not> is_space x"
      using last_in_set by blast
    then have d: "?d \<noteq> []" by auto
    then have l: "\<not> is_space (last ?d)"
      using cs dropWhile_last [of is_space cs] by simp
    have h: "\<not> is_space (hd ?d)" using d by (rule hd_dropWhile)
    have "tidy_tail (collapse_ws ?d)"
      using 2(1) True l by simp
    moreover have "collapse_ws ?d \<noteq> [] \<and> \<not> is_space (hd (collapse_ws ?d))"
      using d h by (cases ?d) auto
    ultimately show ?thesis using True by simp
  next
    case False
    then have "cs = [] \<or> \<not> is_space (last cs)"
      using 2(3) by (auto split: if_splits)
    then show ?thesis using 2(2) False by simp
  qed
qed

lemma collapse_trim_tidy: "tidy (collapse_ws (trim s))"
proof (cases "trim s")
  case Nil
  then show ?thesis by (simp add: tidy_def)
next
  case (Cons c cs)
  then have shape: "\<not> is_space c" "\<not> is_space (last (trim s))"
    using trim_shape [of s] by auto
  then have "tidy_tail (collapse_ws (trim s))"
    by (intro collapse_tidy_tail) simp
  then show ?thesis
    using shape(1) by (simp add: tidy_def Cons)
qed

lemma tidy_tail_last: "tidy_tail t \<Longrightarrow> t \<noteq> [] \<Longrightarrow> \<not> is_space (last t)"
  by (induction t) (auto split: if_splits)

lemma tidy_trim: "tidy t \<Longrightarrow> trim t = t"
proof (cases t)
  case Nil
  then show ?thesis by (simp add: trim_def)
next
  case (Cons c cs)
  assume "tidy t"
  then have h: "\<not> is_space (hd t)" and tt: "tidy_tail t"
    using Cons by (simp_all add: tidy_def)
  have l: "\<not> is_space (last t)"
    using tt Cons by (intro tidy_tail_last) simp_all
  have "dropWhile is_space t = t"
    using h Cons by simp
  moreover have "dropWhile is_space (rev t) = rev t"
  proof -
    have "rev t \<noteq> []" using Cons by simp
    moreover have "\<not> is_space (hd (rev t))"
      using l Cons by (metis hd_rev list.distinct(1))
    ultimately show ?thesis
      by (simp only: dropWhile_eq_self_iff) simp
  qed
  ultimately show ?thesis by (simp add: trim_def)
qed

lemma tidy_collapse: "tidy_tail t \<Longrightarrow> collapse_ws t = t"
proof (induction t rule: collapse_ws.induct)
  case 1
  then show ?case by simp
next
  case (2 c cs)
  show ?case
  proof (cases "is_space c")
    case True
    then have c: "c = 32" "cs \<noteq> []" "\<not> is_space (hd cs)" "tidy_tail cs"
      using 2(3) by simp_all
    then have d: "dropWhile is_space cs = cs"
      by (cases cs) auto
    then show ?thesis using 2(1) True c by simp
  next
    case False
    then show ?thesis using 2 by simp
  qed
qed

text \<open>
  Claim C7. For every address string \<open>a\<close>, normalization (trim, collapse white space,
  abbreviate the street-suffix words) is idempotent:
  \<open>normalize (normalize a) = normalize a\<close>.
\<close>

theorem normalizeAddress_idempotent:
  "normalizeAddress (normalizeAddress a) = normalizeAddress a"
proof -
  let ?x = "collapse_ws (trim a)"
  let ?y = "replace_suffixes False ?x"
  have "tidy ?x" by (rule collapse_trim_tidy)
  then have y: "tidy ?y" by (rule replace_tidy)
  then have "trim ?y = ?y" by (rule tidy_trim)
  moreover have "collapse_ws ?y = ?y"
    using y by (cases ?y) (auto simp: tidy_def intro: tidy_collapse)
  ultimately show ?thesis
    by (simp add: normalizeAddress_def replace_idem)
qed

section \<open>Properties of address validation\<close>

lemma letter_nonspace: "is_letter c \<Longrightarrow> \<not> is_space c"
  by (auto simp: is_letter_def is_space_def)

lemma dropWhile_keeps: "x \<in> set xs \<Longrightarrow> \<not> P x \<Longrightarrow> x \<in> set (dropWhile P xs)"
  by (induction xs) auto

lemma trim_letters: "list_ex is_letter (trim s) = list_ex is_letter s"
proof
  assume "list_ex is_letter (trim s)"
  then obtain c where "c \<in> set (trim s)" "is_letter c" by (auto simp: list_ex_iff)
  then have "c \<in> set s"
    by (auto simp: trim_def dest!: set_dropWhileD)
  then show "list_ex is_letter s" using \<open>is_letter c\<close> by (auto simp: list_ex_iff)
next
  assume "list_ex is_letter s"
  then obtain c where c: "c \<in> set s" "is_letter c" by (auto simp: list_ex_iff)
  then have "c \<in> set (dropWhile is_space s)"
    by (intro dropWhile_keeps) (auto dest: letter_nonspace)
  then have "c \<in> set (rev (dropWhile is_space s))" by simp
  then have "c \<in> set (dropWhile is_space (rev (dropWhile is_space s)))"
    using c(2) by (intro dropWhile_keeps) (auto dest: letter_nonspace)
  then show "list_ex is_letter (trim s)"
    using c(2) by (auto simp: trim_def list_ex_iff)
qed

lemma validateAddress_string:
  "validateAddress (JStr s) =
     (if trim s = []
      then \<lparr>isValid = False, errors = [''Address cannot be empty''], warnings = [],
            normalized = None\<rparr>
      else \<lparr>isValid = list_ex is_letter s,
            errors = (if list_ex is_letter s then [] else [''Address should include a street name'']),
            warnings = (if length (trim s) < 10 then [''Address appears to be incomplete''] else [])
                       @ (if list_ex is_digit (trim s) then []
                          else [''Address should include a street number'']),
            normalized = Some (normalizeAddress (trim s))\<rparr>)"
  by (simp add: validateAddress_def Let_def trim_letters)

lemma trim_digits: "list_ex is_digit (trim s) = list_ex is_digit s"
proof -
  have ns: "is_digit c \<Longrightarrow> \<not> is_space c" for c
    by (auto simp: is_digit_def is_space_def)
  show ?thesis
  proof
    assume "list_ex is_digit (trim s)"
    then obtain c where "c \<in> set (trim s)" "is_digit c" by (auto simp: list_ex_iff)
    then have "c \<in> set s"
      by (auto simp: trim_def dest!: set_dropWhileD)
    then show "list_ex is_digit s" using \<open>is_digit c\<close> by (auto simp: list_ex_iff)
  next
    assume "list_ex is_digit s"
    then obtain c where c: "c \<in> set s" "is_digit c" by (auto simp: list_ex_iff)
    then have "c \<in> set (dropWhile is_space s)"
      by (intro dropWhile_keeps) (auto dest: ns)
    then have "c \<in> set (rev (dropWhile is_space s))" by simp
    then have "c \<in> set (dropWhile is_space (rev (dropWhile is_space s)))"
      using c(2) by (intro dropWhile_keeps) (auto dest: ns)
    then show "list_ex is_digit (trim s)"
      using c(2) by (auto simp: trim_def list_ex_iff)
  qed
qed

lemma no_letter_if_blank: "trim s = [] \<Longrightarrow> \<not> list_ex is_letter s"
  using trim_letters [of s] by simp

lemma service_validateAddress_string:
  "service_validateAddress (JStr s) =
     (if list_ex is_letter s then Inr (normalizeAddress (trim s))
      else Inl \<lparr>error_class = ValidationError,
                message = (if trim s = [] then ''Invalid address: Address cannot be empty''
                           else ''Invalid address: Address should include a street name'')\<rparr>)"
  using no_letter_if_blank [of s]
  by (auto simp: service_validateAddress_def validateAddress_string Let_def)

text \<open>
  Claim C6, as the code has it. For every address string, the validation step of an
  evaluator fails with a \<^verbatim>\<open>ValidationError\<close> exactly when the address has no ASCII letter
  (which includes the empty and the all-blank address), and then the evaluator (here
  \<^verbatim>\<open>checkNMTCEligibility\<close>, in any network) yields that validation failure and no result. An
  address with a letter passes and is normalized; if it has no digit, validation records
  the warning that a street number is missing and reports no error.
\<close>

theorem address_validation_requires_letter:
  "(isl (service_validateAddress (JStr s)) \<longleftrightarrow> \<not> list_ex is_letter s)
   \<and> (\<not> list_ex is_letter s \<longrightarrow>
        (\<exists>msg. service_validateAddress (JStr s) = Inl \<lparr>error_class = ValidationError, message = msg\<rparr>)
        \<and> (\<exists>msg. checkNMTCEligibility net (JStr s)
                    = Inl \<lparr>error_class = ValidationError, message = msg\<rparr>))
   \<and> (list_ex is_letter s \<longrightarrow>
        service_validateAddress (JStr s) = Inr (normalizeAddress (trim s))
        \<and> isValid (validateAddress (JStr s)))
   \<and> (list_ex is_letter s \<and> \<not> list_ex is_digit s \<longrightarrow>
        isValid (validateAddress (JStr s))
        \<and> errors (validateAddress (JStr s)) = []
        \<and> ''Address should include a street number'' \<in> set (warnings (validateAddress (JStr s))))"
proof (intro conjI impI)
  show "isl (service_validateAddress (JStr s)) \<longleftrightarrow> \<not> list_ex is_letter s"
    by (simp add: service_validateAddress_string)
next
  assume n: "\<not> list_ex is_letter s"
  then show "\<exists>msg. service_validateAddress (JStr s) = Inl \<lparr>error_class = ValidationError, message = msg\<rparr>"
    by (simp add: service_validateAddress_string)
  from n show "\<exists>msg. checkNMTCEligibility net (JStr s)
                    = Inl \<lparr>error_class = ValidationError, message = msg\<rparr>"
    by (simp add: checkNMTCEligibility_def service_validateAddress_string)
next
  assume l: "list_ex is_letter s"
  then show "service_validateAddress (JStr s) = Inr (normalizeAddress (trim s))"
    by (simp add: service_validateAddress_string)
  from l no_letter_if_blank [of s] show "isValid (validateAddress (JStr s))"
    by (auto simp: validateAddress_string)
next
  assume h: "list_ex is_letter s \<and> \<not> list_ex is_digit s"
  then have ne: "trim s \<noteq> []" using no_letter_if_blank by blast
  then show "isValid (validateAddress (JStr s))" "errors (validateAddress (JStr s)) = []"
    using h by (simp_all add: validateAddress_string)
  show "''Address should include a street number'' \<in> set (warnings (validateAddress (JStr s)))"
    using h ne by (simp add: validateAddress_string trim_digits)
qed


text \<open>
  The theorem at an address of digits only, which fails, and at an address without a
  digit, which passes with the warning.
\<close>

lemmas class_defs = is_space_def is_word_def is_letter_def is_digit_def

lemmas replace_defs = replace_suffixes.simps(2) match_at_eq suffix_words_def suffixAlternatives_def
  abbreviate_def abbrevMap_def ascii_lower_def js_str_def

lemma main_street:
  "list_ex is_letter (js_str ''Main Street'')" "\<not> list_ex is_digit (js_str ''Main Street'')"
  "trim (js_str ''Main Street'') = js_str ''Main Street''"
  "normalizeAddress (js_str ''Main Street'') = js_str ''Main St''"
  by (simp_all add: normalizeAddress_def trim_def class_defs replace_defs)

lemma digits_only:
  "\<not> list_ex is_letter (js_str ''12345'')" "trim (js_str ''12345'') = js_str ''12345''"
  by (simp_all add: trim_def class_defs js_str_def)

theorem address_validation_requires_letter_witness:
  "\<not> list_ex is_letter (js_str ''12345'')
   \<and> service_validateAddress (JStr (js_str ''12345''))
       = Inl \<lparr>error_class = ValidationError,
              message = ''Invalid address: Address should include a street name''\<rparr>
   \<and> isl (checkNMTCEligibility demo_network (JStr (js_str ''12345'')))
   \<and> list_ex is_letter (js_str ''Main Street'')
   \<and> \<not> list_ex is_digit (js_str ''Main Street'')
   \<and> service_validateAddress (JStr (js_str ''Main Street'')) = Inr (js_str ''Main St'')
   \<and> isValid (validateAddress (JStr (js_str ''Main Street'')))
   \<and> ''Address should include a street number''
         \<in> set (warnings (validateAddress (JStr (js_str ''Main Street''))))"
proof -
  have a: "service_validateAddress (JStr (js_str ''12345''))
       = Inl \<lparr>error_class = ValidationError,
              message = ''Invalid address: Address should include a street name''\<rparr>"
    using digits_only by (simp add: service_validateAddress_string) (simp add: js_str_def)
  have b: "isl (checkNMTCEligibility demo_network (JStr (js_str ''12345'')))"
    using address_validation_requires_letter [of "js_str ''12345''" demo_network] digits_only(1)
    by auto
  have c: "service_validateAddress (JStr (js_str ''Main Street'')) = Inr (js_str ''Main St'')
           \<and> isValid (validateAddress (JStr (js_str ''Main Street'')))
           \<and> ''Address should include a street number''
                 \<in> set (warnings (validateAddress (JStr (js_str ''Main Street''))))"
    using address_validation_requires_letter [of "js_str ''Main Street''" demo_network] main_street
    by simp
  show ?thesis
    using a b c main_street(1,2) digits_only(1) by simp
qed

text \<open>
  Claim C6 as stated fails: the address \<open>Main Street\<close> has no digit, its validation
  succeeds with the normalized address \<open>Main St\<close>, and the evaluator returns a result.
\<close>

theorem address_without_digit_is_valid:
  "\<not> list_ex is_digit (js_str ''Main Street'')
   \<and> service_validateAddress (JStr (js_str ''Main Street'')) = Inr (js_str ''Main St'')
   \<and> \<not> isl (checkNMTCEligibility demo_network (JStr (js_str ''Main Street'')))"
  using main_street
  by (simp add: service_validateAddress_string checkNMTCEligibility_def demo_network_def Let_def)

section \<open>Properties of the New Markets Tax Credit determination\<close>

subsection \<open>A method that depends on the state of the run\<close>

text \<open>
  \<^verbatim>\<open>checkHistoricDistrict\<close> answers differently in the two demonstration states, although its
  argument is the same, and it leaves a state other than the one it found: a second call
  reads the next value of the generator.
\<close>

lemma threshold_values:
  "fl (85 / 100) < 1 / 2 \<longleftrightarrow> False" "fl (85 / 100) < 7 / 8 \<longleftrightarrow> True"
  by code_simp+

lemma checkHistoricDistrict_reads_generator:
  "fst (checkHistoricDistrict c demo_runtime) = False"
  "fst (checkHistoricDistrict c other_runtime) = True"
  "snd (checkHistoricDistrict c rt) = rt\<lparr>random_calls := Suc (random_calls rt)\<rparr>"
  by (simp_all only: checkHistoricDistrict_def Math_random_def demo_runtime_def other_runtime_def
        runtime.select_convs prod.case fst_conv snd_conv threshold_values)

subsection \<open>The simulated demographics\<close>

lemma simulate_state: "snd (simulateCensusDemographics g rt) = rt"
  by (simp add: simulateCensusDemographics_def Let_def split: option.splits)

lemma simulate_result:
  "fst (simulateCensusDemographics g rt1) = fst (simulateCensusDemographics g rt2)"
  by (simp add: simulateCensusDemographics_def Let_def split: option.splits)

lemma lic_state: "snd (checkLowIncomeEligibility cd rt) = rt"
  by (simp add: checkLowIncomeEligibility_def simulateCensusDemographics_def Let_def
      split: option.splits prod.splits sum.splits)

lemma lic_result:
  "geoid cd1 = geoid cd2 \<Longrightarrow>
     fst (checkLowIncomeEligibility cd1 rt1) = fst (checkLowIncomeEligibility cd2 rt2)"
  by (simp add: checkLowIncomeEligibility_def simulateCensusDemographics_def Let_def
      split: option.splits prod.splits sum.splits)

text \<open>The generator stays within the modulus, so every value it returns is below 1 in magnitude.\<close>

lemma random_step_bounds: "\<bar>random_step h\<bar> < 233280"
  by (simp add: random_step_def js_rem_def abs_mult abs_sgn_eq)

text \<open>The demographics of the tract 01001127181.\<close>

lemma demo_geoid: "js_str ''01001127181'' = [48, 49, 48, 48, 49, 49, 50, 55, 49, 56, 49]"
  by (simp add: js_str_def)

lemma demo_hash: "seed_hash (js_str ''01001127181'') = 1787201924"
  by (simp add: demo_geoid seed_hash_def hash_step_def ToInt32_def)

lemma demo_random_steps:
  "random_step 1787201924 = 68901"
  "random_step 68901 = 77338"
  "random_step 77338 = 167795"
  "random_step 167795 = 67392"
  "random_step 67392 = 38929"
  by (simp_all add: random_step_def js_rem_def)

lemma demo_values:
  "fl (5 + fl (random_value 68901 * 35)) = 8634252150182107 / 562949953421312"
  "fl (fl (4 / 10) + fl (random_value 77338 * fl (6 / 10))) = 5394543220320159 / 9007199254740992"
  "random_value 167795 < fl (1 / 10) \<longleftrightarrow> False"
  "\<lfloor>fl (1000 + fl (random_value 67392 * 9000))\<rfloor> = 3599"
  "\<lfloor>fl (25000 + fl (random_value 38929 * 75000))\<rfloor> = 37515"
  "(8634252150182107 / 562949953421312 :: rat) \<ge> 20 \<longleftrightarrow> False"
  "(5394543220320159 / 9007199254740992 :: rat) \<le> fl (8 / 10) \<longleftrightarrow> True"
  by code_simp+

text \<open>
  The population of that tract is decided by the rounding: the exact value of
  \<^verbatim>\<open>1000 + random() * 9000\<close> is 3600, the doubles give a sum below it.
\<close>

lemma demo_population_exact: "\<lfloor>1000 + (of_int 67392 / 233280) * (9000 :: rat)\<rfloor> = 3600"
  by code_simp

lemma demo_demographics:
  "simulateCensusDemographics (Some (js_str ''01001127181'')) rt =
     (Inr \<lparr>povertyRate = 8634252150182107 / 562949953421312,
           medianIncomeRatio = 5394543220320159 / 9007199254740992,
           inEmpowermentZone = False, population = 3599, medianIncome = 37515\<rparr>, rt)"
  unfolding simulateCensusDemographics_def option.case Let_def demo_hash demo_random_steps
    demo_values
  by (rule refl)

lemma demo_eligibility:
  "checkLowIncomeEligibility demo_census rt =
     (\<lparr>lic_eligible = True,
       lic_criteria =
         Some \<lparr>criteria_povertyRate = 8634252150182107 / 562949953421312,
               criteria_medianIncomeRatio = 5394543220320159 / 9007199254740992,
               criteria_inEmpowermentZone = False,
               qualifications = \<lparr>poverty = False, income = True, designation = False\<rparr>\<rparr>\<rparr>, rt)"
  by (simp only: checkLowIncomeEligibility_def demo_census_def censusData.select_convs
        demo_demographics prod.case sum.case Let_def demographics.select_convs demo_values
        simp_thms)

text \<open>
  Claim C10. The low-income-community determination depends on the geoid alone. Two runs of
  \<^verbatim>\<open>simulateCensusDemographics\<close> with the same geoid, started in any two states of the
  generator behind \<^verbatim>\<open>Math.random\<close>, the clock, the shared cache and the service instance,
  produce identical demographics, and a run leaves the state it found, so that a second run
  on the same service instance repeats the first. Two runs of \<^verbatim>\<open>checkLowIncomeEligibility\<close>
  on census records with the same geoid, whatever their other fields and the states of the
  runs, give the same verdict and the same criteria. The demographics depend on the geoid
  only through the 32-bit hash that seeds the generator of the run. Two runs of the
  evaluator, in any two networks and on any two addresses, that reach tracts with the same
  geoid return the same eligibility verdict and the same qualification criteria.
\<close>

theorem nmtc_determination_seeded_by_geoid:
  "fst (simulateCensusDemographics g rt1) = fst (simulateCensusDemographics g rt2)
   \<and> snd (simulateCensusDemographics g rt1) = rt1
   \<and> fst (simulateCensusDemographics g (snd (simulateCensusDemographics g rt1)))
       = fst (simulateCensusDemographics g rt1)
   \<and> (geoid cd1 = geoid cd2 \<longrightarrow>
         fst (checkLowIncomeEligibility cd1 rt1) = fst (checkLowIncomeEligibility cd2 rt2))
   \<and> snd (checkLowIncomeEligibility cd1 rt1) = rt1
   \<and> (seed_hash s1 = seed_hash s2 \<longrightarrow>
         fst (simulateCensusDemographics (Some s1) rt1)
           = fst (simulateCensusDemographics (Some s2) rt2))
   \<and> (checkNMTCEligibility net1 a1 = Inr r1 \<and> checkNMTCEligibility net2 a2 = Inr r2
        \<and> geoid (nmtc_censusData r1) = geoid (nmtc_censusData r2) \<longrightarrow>
         nmtcEligible r1 = nmtcEligible r2 \<and> qualificationCriteria r1 = qualificationCriteria r2)"
proof (intro conjI impI)
  show "fst (simulateCensusDemographics g rt1) = fst (simulateCensusDemographics g rt2)"
    by (rule simulate_result)
  show "snd (simulateCensusDemographics g rt1) = rt1"
    by (rule simulate_state)
  show "fst (simulateCensusDemographics g (snd (simulateCensusDemographics g rt1)))
       = fst (simulateCensusDemographics g rt1)"
    by (rule simulate_result)
  show "snd (checkLowIncomeEligibility cd1 rt1) = rt1"
    by (rule lic_state)
next
  assume "geoid cd1 = geoid cd2"
  then show "fst (checkLowIncomeEligibility cd1 rt1) = fst (checkLowIncomeEligibility cd2 rt2)"
    by (rule lic_result)
next
  assume "seed_hash s1 = seed_hash s2"
  then show "fst (simulateCensusDemographics (Some s1) rt1)
           = fst (simulateCensusDemographics (Some s2) rt2)"
    by (simp add: simulateCensusDemographics_def Let_def)
next
  assume h: "checkNMTCEligibility net1 a1 = Inr r1 \<and> checkNMTCEligibility net2 a2 = Inr r2
        \<and> geoid (nmtc_censusData r1) = geoid (nmtc_censusData r2)"
  have r: "nmtcEligible r
             = lic_eligible (fst (checkLowIncomeEligibility (nmtc_censusData r) (engine net)))
           \<and> qualificationCriteria r
             = lic_criteria (fst (checkLowIncomeEligibility (nmtc_censusData r) (engine net)))"
    if "checkNMTCEligibility net a = Inr r" for net a r
    using that by (auto simp: checkNMTCEligibility_def Let_def split: sum.splits option.splits)
  have "fst (checkLowIncomeEligibility (nmtc_censusData r1) (engine net1))
          = fst (checkLowIncomeEligibility (nmtc_censusData r2) (engine net2))"
    using h by (simp add: lic_result)
  then show "nmtcEligible r1 = nmtcEligible r2" "qualificationCriteria r1 = qualificationCriteria r2"
    using h r by metis+
qed

text \<open>
  The theorem at the two demonstration states, at two runs that reach the geoid 01001127181
  from different addresses, coordinates, county names and states, and at two seeds with the
  same hash.
\<close>

lemma runtimes_differ: "demo_runtime \<noteq> other_runtime"
proof
  assume "demo_runtime = other_runtime"
  then have "clock demo_runtime = clock other_runtime" by simp
  then show False by (simp add: demo_runtime_def other_runtime_def)
qed

lemma elm_road:
  "list_ex is_letter (js_str ''99 Elm Road'')"
  by (simp add: class_defs js_str_def)

lemma colliding_seeds:
  "js_str ''Aa'' \<noteq> js_str ''BB''" "seed_hash (js_str ''Aa'') = seed_hash (js_str ''BB'')"
  by (simp_all add: js_str_def seed_hash_def hash_step_def ToInt32_def)

theorem nmtc_determination_seeded_by_geoid_witness:
  "demo_runtime \<noteq> other_runtime
   \<and> fst (simulateCensusDemographics (geoid demo_census) demo_runtime)
       = fst (simulateCensusDemographics (geoid demo_census) other_runtime)
   \<and> fst (simulateCensusDemographics (geoid demo_census) demo_runtime) =
       Inr \<lparr>povertyRate = 8634252150182107 / 562949953421312,
            medianIncomeRatio = 5394543220320159 / 9007199254740992,
            inEmpowermentZone = False, population = 3599, medianIncome = 37515\<rparr>
   \<and> seed_hash (js_str ''Aa'') = seed_hash (js_str ''BB'')
   \<and> js_str ''Aa'' \<noteq> js_str ''BB''
   \<and> fst (simulateCensusDemographics (Some (js_str ''Aa'')) demo_runtime)
       = fst (simulateCensusDemographics (Some (js_str ''BB'')) other_runtime)
   \<and> geoid (demo_census\<lparr>county := JStr (js_str ''Washington'')\<rparr>) = geoid demo_census
   \<and> fst (checkLowIncomeEligibility (demo_census\<lparr>county := JStr (js_str ''Washington'')\<rparr>)
            other_runtime)
       = fst (checkLowIncomeEligibility demo_census demo_runtime)
   \<and> lic_eligible (fst (checkLowIncomeEligibility demo_census demo_runtime))
   \<and> (\<exists>r1 r2. checkNMTCEligibility demo_network (JStr (js_str ''Main Street'')) = Inr r1
         \<and> checkNMTCEligibility other_network (JStr (js_str ''99 Elm Road'')) = Inr r2
         \<and> nmtc_coordinates r1 \<noteq> nmtc_coordinates r2
         \<and> nmtcEligible r1 = nmtcEligible r2
         \<and> qualificationCriteria r1 = qualificationCriteria r2)"
proof -
  let ?cd2 = "demo_census\<lparr>county := JStr (js_str ''Washington'')\<rparr>"
  have g: "geoid ?cd2 = geoid demo_census" by simp
  have s: "fst (simulateCensusDemographics (geoid demo_census) demo_runtime)
       = fst (simulateCensusDemographics (geoid demo_census) other_runtime)"
    using nmtc_determination_seeded_by_geoid [of "geoid demo_census" demo_runtime other_runtime]
    by blast
  have e: "fst (checkLowIncomeEligibility ?cd2 other_runtime)
             = fst (checkLowIncomeEligibility demo_census demo_runtime)"
    using nmtc_determination_seeded_by_geoid [of _ other_runtime demo_runtime ?cd2 demo_census] g
    by blast
  obtain r1 where r1: "checkNMTCEligibility demo_network (JStr (js_str ''Main Street'')) = Inr r1"
    and c1: "nmtc_censusData r1 = demo_census" "lon (nmtc_coordinates r1) = - 77.0365"
    using main_street(1)
    by (simp add: checkNMTCEligibility_def service_validateAddress_string demo_network_def Let_def)
  obtain r2 where r2: "checkNMTCEligibility other_network (JStr (js_str ''99 Elm Road'')) = Inr r2"
    and c2: "nmtc_censusData r2 = ?cd2" "lon (nmtc_coordinates r2) = - 77"
    using elm_road
    by (simp add: checkNMTCEligibility_def service_validateAddress_string other_network_def Let_def)
  have "nmtcEligible r1 = nmtcEligible r2 \<and> qualificationCriteria r1 = qualificationCriteria r2"
    using nmtc_determination_seeded_by_geoid
            [of _ _ _ _ _ _ _ demo_network "JStr (js_str ''Main Street'')" r1
                other_network "JStr (js_str ''99 Elm Road'')" r2]
          r1 r2 c1 c2 g
    by simp
  moreover have "nmtc_coordinates r1 \<noteq> nmtc_coordinates r2"
    using c1(2) c2(2) by auto
  ultimately have n: "\<exists>r1 r2. checkNMTCEligibility demo_network (JStr (js_str ''Main Street'')) = Inr r1
         \<and> checkNMTCEligibility other_network (JStr (js_str ''99 Elm Road'')) = Inr r2
         \<and> nmtc_coordinates r1 \<noteq> nmtc_coordinates r2
         \<and> nmtcEligible r1 = nmtcEligible r2
         \<and> qualificationCriteria r1 = qualificationCriteria r2"
    using r1 r2 by blast
  have d: "fst (simulateCensusDemographics (geoid demo_census) demo_runtime) =
       Inr \<lparr>povertyRate = 8634252150182107 / 562949953421312,
            medianIncomeRatio = 5394543220320159 / 9007199254740992,
            inEmpowermentZone = False, population = 3599, medianIncome = 37515\<rparr>"
    by (simp only: demo_census_def censusData.select_convs demo_demographics fst_conv)
  have l: "lic_eligible (fst (checkLowIncomeEligibility demo_census demo_runtime))"
    by (simp only: demo_eligibility fst_conv lic_eligibility.select_convs)
  have c: "fst (simulateCensusDemographics (Some (js_str ''Aa'')) demo_runtime)
       = fst (simulateCensusDemographics (Some (js_str ''BB'')) other_runtime)"
    using nmtc_determination_seeded_by_geoid
            [of _ demo_runtime other_runtime _ _ "js_str ''Aa''" "js_str ''BB''"]
          colliding_seeds(2)
    by blast
  show ?thesis
    using runtimes_differ s d colliding_seeds c g e l n by blast
qed

end
